theory Spec2Isabelle
  imports Main "HOL-Library.Word"
begin

unbundle bit_operations_syntax

section \<open>Interface types\<close>

text \<open>
  The wave control core of the debugger library (\<^verbatim>\<open>src/wave.cpp\<close>) is embedded as
  state-passing functions. The enumerations and handle types of the public header are
  not part of the sources at hand: enumerations become datatypes, bit sets become words,
  and the numeric values of enumerators are parameters (see \<open>api_constants\<close> below).
\<close>

type_synonym byte = "8 word"
type_synonym amd_dbgapi_global_address = "64 word"
type_synonym amd_dbgapi_segment_address = "64 word"
type_synonym amd_dbgapi_size = "64 word"
type_synonym size_t = "64 word"
type_synonym amd_dbgapi_lane_id = "32 word"
type_synonym amd_dbgapi_exceptions = "32 word"
type_synonym amd_dbgapi_wave_stop_reasons = "32 word"
type_synonym os_exception_mask = "64 word"
type_synonym amdgpu_regnum = nat
type_synonym instruction_t = "byte list"

datatype amd_dbgapi_wave_state =
  WAVE_STATE_RUN | WAVE_STATE_SINGLE_STEP | WAVE_STATE_STOP

datatype visibility_t =
  visible | hidden_halted_at_launch | hidden_at_terminating_instruction

text \<open>A resume mode is an integer of the client; any value other than the two
  enumerators is carried by \<open>RESUME_MODE_OTHER\<close>.\<close>

datatype amd_dbgapi_resume_mode =
  RESUME_MODE_NORMAL | RESUME_MODE_SINGLE_STEP | RESUME_MODE_OTHER nat

datatype amd_dbgapi_status =
  STATUS_SUCCESS
| ERROR_NOT_INITIALIZED
| ERROR_INVALID_WAVE_ID
| ERROR_INVALID_ARGUMENT
| ERROR_INVALID_ARGUMENT_COMPATIBILITY
| ERROR_INVALID_LANE_ID
| ERROR_WAVE_STOPPED
| ERROR_WAVE_NOT_STOPPED
| ERROR_WAVE_OUTSTANDING_STOP
| ERROR_WAVE_NOT_RESUMABLE
| ERROR_RESUME_DISPLACED_STEPPING
| ERROR_ILLEGAL_INSTRUCTION
| ERROR_MEMORY_ACCESS
| ERROR_NOT_AVAILABLE
| ERROR_CLIENT_CALLBACK
| ERROR_OTHER nat

datatype amd_dbgapi_event_kind =
  EVENT_KIND_WAVE_STOP | EVENT_KIND_WAVE_COMMAND_TERMINATED | EVENT_KIND_OTHER nat

text \<open>
  Modelled from the spec: \<^verbatim>\<open>event_t::state_t\<close> is declared in \<^verbatim>\<open>event.h\<close>, which is
  not among the sources. The spec names three states of an event, in this order: a new
  event is pending, then it is reported to the client, then the client marks it
  processed. The code compares them with \<^verbatim>\<open>>=\<close> and \<^verbatim>\<open><\<close>; \<open>state_rank\<close> is
  that order.
\<close>

datatype event_state_t = pending | reported | processed

fun state_rank :: "event_state_t \<Rightarrow> nat" where
  "state_rank pending = 0"
| "state_rank reported = 1"
| "state_rank processed = 2"

record event_t =
  event_id :: nat
  event_kind :: amd_dbgapi_event_kind
  event_wave_id :: nat
  event_state :: event_state_t

record displaced_stepping_t =
  ds_id :: nat
  ds_from :: amd_dbgapi_global_address
  ds_to :: amd_dbgapi_global_address
  ds_original_instruction :: instruction_t
  ds_is_simulated :: bool

record cwsr_record_t =
  register_address :: "amdgpu_regnum \<Rightarrow> amd_dbgapi_global_address option"
  is_priv :: bool
  lds_size :: amd_dbgapi_size

text \<open>
  The three ways a call ends without a result: a C++ exception carrying a status
  (\<^verbatim>\<open>throw exception_t (status)\<close>), the fatal \<^verbatim>\<open>error (...)\<close>, and a failed
  \<^verbatim>\<open>dbgapi_assert\<close>.
\<close>

datatype error = Exception amd_dbgapi_status | Fatal_error | Assertion_failed

text \<open>The queries of \<^verbatim>\<open>amd_dbgapi_wave_info_t\<close> and the values they copy to the
  client; a watchpoint list is its identifiers and the buffer that holds them.\<close>

datatype amd_dbgapi_wave_info =
  WAVE_INFO_STATE
| WAVE_INFO_STOP_REASON
| WAVE_INFO_DISPATCH
| WAVE_INFO_QUEUE
| WAVE_INFO_AGENT
| WAVE_INFO_PROCESS
| WAVE_INFO_ARCHITECTURE
| WAVE_INFO_PC
| WAVE_INFO_EXEC_MASK
| WAVE_INFO_WORK_GROUP_COORD
| WAVE_INFO_WAVE_NUMBER_IN_WORK_GROUP
| WAVE_INFO_WATCHPOINTS
| WAVE_INFO_LANE_COUNT
| WAVE_INFO_OTHER nat

datatype info_value =
  Info_state amd_dbgapi_wave_state
| Info_stop_reason amd_dbgapi_wave_stop_reasons
| Info_handle nat
| Info_address amd_dbgapi_global_address
| Info_exec_mask "64 word"
| Info_group_ids "32 word list"
| Info_wave_in_group "32 word"
| Info_watchpoint_list "nat list" "amd_dbgapi_global_address option"
| Info_lane_count size_t

text \<open>
  Calls into the collaborators of the wave (architecture, process, queue, register cache,
  client callbacks) whose effect lies outside the wave object are recorded, in order, in
  the \<open>trace\<close> of the state.
\<close>

datatype call =
  Wave_set_state amd_dbgapi_wave_state amd_dbgapi_exceptions
| Wave_set_halt bool
| Simulate amd_dbgapi_global_address instruction_t
| Send_exceptions os_exception_mask
| Clear_exceptions os_exception_mask
| Cache_write amd_dbgapi_global_address "byte list"
| Register_dirty_cache
| Write_global_memory amd_dbgapi_global_address "byte list"
| Write_pseudo_register amdgpu_regnum nat "byte list"
| Read_global_memory_partial amd_dbgapi_global_address size_t
| Write_global_memory_partial amd_dbgapi_global_address "byte list"
| Release_displaced_stepping nat
| Suspend_queue
| Resume_queue
| Allocate_memory size_t
| Deallocate_memory "amd_dbgapi_global_address option"

section \<open>The wave and its surroundings\<close>

text \<open>
  The members of \<^verbatim>\<open>wave_t\<close> (with their \<^verbatim>\<open>m_\<close> names) together with the part of
  the process a wave operation reaches: the events of the process, the exceptions of the
  agent, the other waves, and \<open>hw\<close>, which stands for everything behind the register
  cache, the context save area and the global memory of the process. The type of \<open>hw\<close>
  is a parameter; the functions that read and change it are the fields of
  \<open>architecture_t\<close> and \<open>process_t\<close> below.
\<close>

record 'hw dbg_state =
  m_id :: nat
  m_state :: amd_dbgapi_wave_state
  m_visibility :: visibility_t
  m_stop_reason :: amd_dbgapi_wave_stop_reasons
  m_stop_requested :: bool
  m_is_parked :: bool
  m_parked_pc :: amd_dbgapi_global_address
  m_last_stopped_pc :: amd_dbgapi_global_address
  m_last_stop_event_id :: nat
  m_displaced_stepping :: "displaced_stepping_t option"
  m_cwsr_record :: cwsr_record_t
  m_lane_count :: size_t
  m_group_ids :: "32 word list"
  m_wave_in_group :: "32 word"
  dispatch_id :: nat
  queue_id :: nat
  agent_id :: nat
  process_id :: nat
  architecture_id :: nat
  hw :: 'hw
  events :: "event_t list"
  next_event_id :: nat
  agent_exceptions :: os_exception_mask
  other_waves :: "(nat \<times> amd_dbgapi_wave_state \<times> amd_dbgapi_wave_stop_reasons) list"
  waves_changed :: bool
  wave_exists :: bool
  is_initialized :: bool
  trace :: "call list"

text \<open>Enumerator values of \<^verbatim>\<open>amd-dbgapi.h\<close> and \<^verbatim>\<open>os_driver.h\<close>.\<close>

record api_constants =
  EXCEPTION_WAVE_ABORT :: amd_dbgapi_exceptions
  EXCEPTION_WAVE_TRAP :: amd_dbgapi_exceptions
  EXCEPTION_WAVE_MATH_ERROR :: amd_dbgapi_exceptions
  EXCEPTION_WAVE_ILLEGAL_INSTRUCTION :: amd_dbgapi_exceptions
  EXCEPTION_WAVE_MEMORY_VIOLATION :: amd_dbgapi_exceptions
  EXCEPTION_WAVE_APERTURE_VIOLATION :: amd_dbgapi_exceptions
  STOP_REASON_SINGLE_STEP :: amd_dbgapi_wave_stop_reasons
  STOP_REASON_MEMORY_VIOLATION :: amd_dbgapi_wave_stop_reasons
  LANE_NONE :: amd_dbgapi_lane_id
  DISPATCH_NONE :: nat
  sizeof_watchpoint_id :: size_t
  queue_wave_abort :: os_exception_mask
  queue_wave_trap :: os_exception_mask
  queue_wave_math_error :: os_exception_mask
  queue_wave_illegal_instruction :: os_exception_mask
  queue_wave_memory_violation :: os_exception_mask
  queue_wave_aperture_violation :: os_exception_mask
  device_memory_violation :: os_exception_mask
  os_queue_exception_mask :: os_exception_mask

text \<open>Enumerators of \<^verbatim>\<open>amdgpu_regnum_t\<close> (\<^verbatim>\<open>register.h\<close>) and the test for
  pseudo registers.\<close>

record regnum_layout =
  regnum_pc :: amdgpu_regnum
  regnum_wave_id :: amdgpu_regnum
  regnum_dispatch_grid :: amdgpu_regnum
  regnum_wave_in_group :: amdgpu_regnum
  regnum_exec_32 :: amdgpu_regnum
  regnum_exec_64 :: amdgpu_regnum
  regnum_s0 :: amdgpu_regnum
  regnum_v0_32 :: amdgpu_regnum
  regnum_v0_64 :: amdgpu_regnum
  first_sgpr :: amdgpu_regnum
  last_sgpr :: amdgpu_regnum
  first_vgpr :: amdgpu_regnum
  last_vgpr :: amdgpu_regnum
  first_ttmp :: amdgpu_regnum
  last_ttmp :: amdgpu_regnum
  is_pseudo_register :: "amdgpu_regnum \<Rightarrow> bool"

text \<open>
  The architecture descriptor. Its functions receive the wave; they may read the whole
  state and change \<open>hw\<close> only (the members of the wave are private to \<^verbatim>\<open>wave_t\<close>).
\<close>

record 'hw architecture_t =
  wave_get_state ::
    "'hw dbg_state \<Rightarrow> amd_dbgapi_wave_state \<times> amd_dbgapi_wave_stop_reasons"
  wave_set_state ::
    "'hw dbg_state \<Rightarrow> amd_dbgapi_wave_state \<Rightarrow> amd_dbgapi_exceptions \<Rightarrow> 'hw"
  wave_get_halt :: "'hw dbg_state \<Rightarrow> bool"
  wave_set_halt :: "'hw dbg_state \<Rightarrow> bool \<Rightarrow> 'hw"
  can_simulate :: "'hw dbg_state \<Rightarrow> instruction_t \<Rightarrow> bool"
  simulate ::
    "'hw dbg_state \<Rightarrow> amd_dbgapi_global_address \<Rightarrow> instruction_t \<Rightarrow> bool \<times> 'hw"
  is_terminating_instruction :: "instruction_t \<Rightarrow> bool"
  register_size :: "amdgpu_regnum \<Rightarrow> nat"
  park_stopped_waves :: bool
  largest_instruction_size :: nat
  triggered_watchpoints :: "'hw dbg_state \<Rightarrow> nat list"
  read_pseudo_register ::
    "'hw dbg_state \<Rightarrow> amdgpu_regnum \<Rightarrow> nat \<Rightarrow> nat \<Rightarrow> error + byte list"
  write_pseudo_register ::
    "'hw dbg_state \<Rightarrow> amdgpu_regnum \<Rightarrow> nat \<Rightarrow> byte list \<Rightarrow> error + 'hw"

text \<open>
  The process, the queue, the register cache of the wave and the callbacks given to the
  wave at construction. A failed read or write is \<open>None\<close>; the partial transfers return
  their status and what they transferred. \<open>allocate_memory\<close> is the allocator of the
  client (\<open>None\<close> is the null pointer) and \<open>utils_get_info\<close> the status of
  \<^verbatim>\<open>utils::get_info (value_size, value, x)\<close>, which copies \<open>x\<close> to the client.
\<close>

record 'hw process_t =
  read_global_memory ::
    "'hw \<Rightarrow> amd_dbgapi_global_address \<Rightarrow> nat \<Rightarrow> byte list option"
  write_global_memory ::
    "'hw \<Rightarrow> amd_dbgapi_global_address \<Rightarrow> byte list \<Rightarrow> 'hw option"
  read_global_memory_partial ::
    "'hw \<Rightarrow> amd_dbgapi_global_address \<Rightarrow> size_t \<Rightarrow> amd_dbgapi_status \<times> byte list"
  write_global_memory_partial ::
    "'hw \<Rightarrow> amd_dbgapi_global_address \<Rightarrow> byte list \<Rightarrow> amd_dbgapi_status \<times> size_t \<times> 'hw"
  cache_contains :: "'hw \<Rightarrow> amd_dbgapi_global_address \<Rightarrow> nat \<Rightarrow> bool"
  cache_read :: "'hw \<Rightarrow> amd_dbgapi_global_address \<Rightarrow> nat \<Rightarrow> byte list option"
  cache_write :: "'hw \<Rightarrow> amd_dbgapi_global_address \<Rightarrow> byte list \<Rightarrow> 'hw option"
  cache_is_dirty :: "'hw \<Rightarrow> bool"
  register_dirty_cache :: "'hw \<Rightarrow> 'hw"
  queue_is_suspended :: "'hw \<Rightarrow> bool"
  queue_suspend :: "'hw dbg_state \<Rightarrow> 'hw dbg_state"
  queue_resume :: "'hw dbg_state \<Rightarrow> 'hw dbg_state"
  park_instruction_address :: amd_dbgapi_global_address
  terminating_instruction_address :: amd_dbgapi_global_address
  scratch_memory_region ::
    "cwsr_record_t \<Rightarrow> amd_dbgapi_global_address \<times> amd_dbgapi_size"
  find_watchpoint :: "nat \<Rightarrow> nat option"
  allocate_memory :: "'hw \<Rightarrow> size_t \<Rightarrow> amd_dbgapi_global_address option"
  utils_get_info :: "nat \<Rightarrow> info_value \<Rightarrow> amd_dbgapi_status"

record 'hw env =
  api :: api_constants
  regs :: regnum_layout
  arch :: "'hw architecture_t"
  proc :: "'hw process_t"

section \<open>Registers\<close>

text \<open>
  The object representation of a 64-bit value on the (little-endian) host: \<open>to_bytes n w\<close>
  are the first \<open>n\<close> bytes of \<open>w\<close>, \<open>from_bytes\<close> reads them back. The register
  functions move byte ranges, as \<^verbatim>\<open>memcpy\<close> does in the source.
\<close>

fun to_bytes :: "nat \<Rightarrow> 64 word \<Rightarrow> byte list" where
  "to_bytes 0 w = []"
| "to_bytes (Suc n) w = ucast w # to_bytes n (drop_bit 8 w)"

fun from_bytes :: "byte list \<Rightarrow> 64 word" where
  "from_bytes [] = 0"
| "from_bytes (b # bs) = ucast b OR push_bit 8 (from_bytes bs)"

definition in_range :: "amdgpu_regnum \<Rightarrow> amdgpu_regnum \<Rightarrow> amdgpu_regnum \<Rightarrow> bool" where
  "in_range lo hi regnum \<longleftrightarrow> lo \<le> regnum \<and> regnum \<le> hi"

text \<open>
  \<^verbatim>\<open>wave_t::read_register (regnum, offset, value_size, value)\<close>. The result is the
  content of \<^verbatim>\<open>value[offset .. offset + value_size)\<close>. The sum
  \<^verbatim>\<open>offset + value_size\<close> is computed in \<^verbatim>\<open>size_t\<close>.
\<close>

definition read_register ::
  "'hw env \<Rightarrow> 'hw dbg_state \<Rightarrow> amdgpu_regnum \<Rightarrow> nat \<Rightarrow> nat \<Rightarrow> error + byte list" where
  "read_register E s regnum offset value_size =
    (if is_pseudo_register (regs E) regnum
     then read_pseudo_register (arch E) s regnum offset value_size
     else if value_size = 0
          \<or> (offset + value_size) mod 2 ^ 64 > register_size (arch E) regnum
     then Inl (Exception ERROR_INVALID_ARGUMENT_COMPATIBILITY)
     else
       let cwsr = m_cwsr_record s;
           reg_addr = register_address cwsr regnum;
           reg_addr = (if reg_addr = None
                         \<and> in_range (first_sgpr (regs E)) (last_sgpr (regs E)) regnum
                       then register_address cwsr (regnum_s0 (regs E)) else reg_addr);
           reg_addr = (if reg_addr = None
                         \<and> in_range (first_vgpr (regs E)) (last_vgpr (regs E)) regnum
                       then register_address cwsr
                              (if m_lane_count s = 32 then regnum_v0_32 (regs E)
                               else regnum_v0_64 (regs E))
                       else reg_addr)
       in case reg_addr of
            None \<Rightarrow> Inl Assertion_failed
          | Some a \<Rightarrow>
              if in_range (first_ttmp (regs E)) (last_ttmp (regs E)) regnum
                 \<and> \<not> is_priv cwsr
              then Inr (replicate value_size 0)
              else if m_is_parked s \<and> regnum = regnum_pc (regs E)
              then Inr (take value_size (drop offset (to_bytes 8 (m_parked_pc s))))
              else if cache_contains (proc E) (hw s) (a + of_nat offset) value_size
              then (case cache_read (proc E) (hw s) (a + of_nat offset) value_size of
                      None \<Rightarrow> Inl Fatal_error
                    | Some bs \<Rightarrow> Inr bs)
              else if \<not> queue_is_suspended (proc E) (hw s)
              then Inl Assertion_failed
              else (case read_global_memory (proc E) (hw s) (a + of_nat offset) value_size of
                      None \<Rightarrow> Inl Fatal_error
                    | Some bs \<Rightarrow> Inr bs))"

text \<open>
  \<^verbatim>\<open>wave_t::write_register (regnum, offset, value_size, value)\<close>; \<open>val\<close> is the
  content of \<^verbatim>\<open>value[offset .. offset + value_size)\<close>, so \<^verbatim>\<open>value_size\<close> is its
  length.
\<close>

definition write_register ::
  "'hw env \<Rightarrow> amdgpu_regnum \<Rightarrow> nat \<Rightarrow> byte list \<Rightarrow> 'hw dbg_state \<Rightarrow> error + 'hw dbg_state"
  where
  "write_register E regnum offset val s =
    (if is_pseudo_register (regs E) regnum
     then (case write_pseudo_register (arch E) s regnum offset val of
             Inl e \<Rightarrow> Inl e
           | Inr h \<Rightarrow>
               Inr (s\<lparr>hw := h, trace := trace s @ [Write_pseudo_register regnum offset val]\<rparr>))
     else if length val = 0
          \<or> (offset + length val) mod 2 ^ 64 > register_size (arch E) regnum
     then Inl (Exception ERROR_INVALID_ARGUMENT_COMPATIBILITY)
     else
       let cwsr = m_cwsr_record s;
           reg_addr = register_address cwsr regnum
       in if reg_addr = None
             \<and> (in_range (first_sgpr (regs E)) (last_sgpr (regs E)) regnum
                \<or> in_range (first_vgpr (regs E)) (last_vgpr (regs E)) regnum)
          then Inr s
          else case reg_addr of
            None \<Rightarrow> Inl Assertion_failed
          | Some a \<Rightarrow>
              if in_range (first_ttmp (regs E)) (last_ttmp (regs E)) regnum
                 \<and> \<not> is_priv cwsr
              then Inr s
              else if m_is_parked s \<and> regnum = regnum_pc (regs E)
              then
                (let old = to_bytes 8 (m_parked_pc s)
                 in Inr (s\<lparr>m_parked_pc :=
                      from_bytes (take offset old @ val @ drop (offset + length val) old)\<rparr>))
              else if cache_contains (proc E) (hw s) (a + of_nat offset) (length val)
              then (case cache_write (proc E) (hw s) (a + of_nat offset) val of
                      None \<Rightarrow> Inl Fatal_error
                    | Some h \<Rightarrow>
                        let s1 = s\<lparr>hw := h,
                                   trace := trace s @ [Cache_write (a + of_nat offset) val]\<rparr>
                        in if cache_is_dirty (proc E) h
                           then Inr (s1\<lparr>hw := register_dirty_cache (proc E) h,
                                        trace := trace s1 @ [Register_dirty_cache]\<rparr>)
                           else Inr s1)
              else if \<not> queue_is_suspended (proc E) (hw s)
              then Inl Assertion_failed
              else (case write_global_memory (proc E) (hw s) (a + of_nat offset) val of
                      None \<Rightarrow> Inl Fatal_error
                    | Some h \<Rightarrow>
                        Inr (s\<lparr>hw := h,
                               trace := trace s
                                 @ [Write_global_memory (a + of_nat offset) val]\<rparr>)))"

text \<open>\<^verbatim>\<open>wave_t::pc ()\<close> reads the eight bytes of the pc register.\<close>

definition pc :: "'hw env \<Rightarrow> 'hw dbg_state \<Rightarrow> error + amd_dbgapi_global_address" where
  "pc E s = (case read_register E s (regnum_pc (regs E)) 0 8 of
               Inl e \<Rightarrow> Inl e
             | Inr bs \<Rightarrow> Inr (from_bytes bs))"

text \<open>\<^verbatim>\<open>wave_t::exec_mask ()\<close>.\<close>

definition exec_mask :: "'hw env \<Rightarrow> 'hw dbg_state \<Rightarrow> error + 64 word" where
  "exec_mask E s =
    (if m_lane_count s = 32
     then (case read_register E s (regnum_exec_32 (regs E)) 0 4 of
             Inl e \<Rightarrow> Inl e
           | Inr bs \<Rightarrow> Inr (from_bytes bs))
     else if m_lane_count s = 64
     then (case read_register E s (regnum_exec_64 (regs E)) 0 8 of
             Inl e \<Rightarrow> Inl e
           | Inr bs \<Rightarrow> Inr (from_bytes bs))
     else Inl Fatal_error)"

text \<open>
  \<^verbatim>\<open>wave_t::instruction_at_pc (pc_adjust)\<close>: the bytes read at the pc, trimmed to what
  was read; no instruction when the read fails.
\<close>

definition instruction_at_pc ::
  "'hw env \<Rightarrow> 'hw dbg_state \<Rightarrow> 64 word \<Rightarrow> error + instruction_t option" where
  "instruction_at_pc E s pc_adjust =
    (case pc E s of
       Inl e \<Rightarrow> Inl e
     | Inr p \<Rightarrow>
         (case read_global_memory_partial (proc E) (hw s) (p + pc_adjust)
                 (of_nat (largest_instruction_size (arch E))) of
            (status, instruction_bytes) \<Rightarrow>
              if status \<noteq> STATUS_SUCCESS then Inr None
              else Inr (Some instruction_bytes)))"

section \<open>Visibility, parking, events\<close>

text \<open>\<^verbatim>\<open>wave_t::set_visibility (visibility)\<close>.\<close>

definition set_visibility ::
  "'hw env \<Rightarrow> visibility_t \<Rightarrow> 'hw dbg_state \<Rightarrow> error + 'hw dbg_state" where
  "set_visibility E visibility s =
    (if m_visibility s = visibility then Inr s
     else
       case (if m_visibility s = hidden_halted_at_launch
             then (if \<not> (m_state s = WAVE_STATE_RUN \<and> wave_get_halt (arch E) s)
                   then Inl Assertion_failed
                   else Inr (s\<lparr>hw := wave_set_halt (arch E) s False,
                               trace := trace s @ [Wave_set_halt False]\<rparr>))
             else Inr s) of
         Inl e \<Rightarrow> Inl e
       | Inr s1 \<Rightarrow> Inr (s1\<lparr>m_visibility := visibility, waves_changed := True\<rparr>))"

text \<open>\<^verbatim>\<open>wave_t::park ()\<close>.\<close>

definition park :: "'hw env \<Rightarrow> 'hw dbg_state \<Rightarrow> error + 'hw dbg_state" where
  "park E s =
    (if m_state s \<noteq> WAVE_STATE_STOP then Inl Assertion_failed
     else if m_is_parked s then Inl Assertion_failed
     else case pc E s of
       Inl e \<Rightarrow> Inl e
     | Inr real_pc \<Rightarrow>
         (case write_register E (regnum_pc (regs E)) 0
                 (to_bytes 8 (park_instruction_address (proc E)))
                 (s\<lparr>m_parked_pc := real_pc\<rparr>) of
            Inl e \<Rightarrow> Inl e
          | Inr s1 \<Rightarrow> Inr (s1\<lparr>m_is_parked := True\<rparr>)))"

text \<open>\<^verbatim>\<open>wave_t::unpark ()\<close>.\<close>

definition unpark :: "'hw env \<Rightarrow> 'hw dbg_state \<Rightarrow> error + 'hw dbg_state" where
  "unpark E s =
    (if m_state s = WAVE_STATE_STOP then Inl Assertion_failed
     else if \<not> m_is_parked s then Inl Assertion_failed
     else case pc E s of
       Inl e \<Rightarrow> Inl e
     | Inr saved_pc \<Rightarrow>
         write_register E (regnum_pc (regs E)) 0 (to_bytes 8 saved_pc)
           (s\<lparr>m_is_parked := False\<rparr>))"

text \<open>
  \<^verbatim>\<open>wave_t::raise_event (event_kind)\<close>. Modelled from the spec: the process creates
  the event (\<^verbatim>\<open>process.create<event_t>\<close>, not among the sources) with a fresh
  identifier and enqueues it; a new event is pending.
\<close>

definition raise_event ::
  "amd_dbgapi_event_kind \<Rightarrow> 'hw dbg_state \<Rightarrow> 'hw dbg_state" where
  "raise_event kind s =
    (let event = \<lparr>event_id = next_event_id s, event_kind = kind,
                  event_wave_id = m_id s, event_state = pending\<rparr>;
         s1 = s\<lparr>next_event_id := Suc (next_event_id s)\<rparr>;
         s2 = (if kind = EVENT_KIND_WAVE_COMMAND_TERMINATED \<or> kind = EVENT_KIND_WAVE_STOP
               then s1\<lparr>m_last_stop_event_id := event_id event\<rparr> else s1)
     in s2\<lparr>events := events s2 @ [event]\<rparr>)"

text \<open>\<^verbatim>\<open>wave_t::last_stop_event ()\<close>: the event the process finds under
  \<^verbatim>\<open>m_last_stop_event_id\<close>, if any.\<close>

definition last_stop_event :: "'hw dbg_state \<Rightarrow> error + event_t option" where
  "last_stop_event s =
    (if m_state s \<noteq> WAVE_STATE_STOP then Inl Assertion_failed
     else Inr (find (\<lambda>e. event_id e = m_last_stop_event_id s) (events s)))"

text \<open>\<^verbatim>\<open>wave_t::client_visible_state ()\<close>.\<close>

definition client_visible_state ::
  "'hw env \<Rightarrow> 'hw dbg_state \<Rightarrow> error + amd_dbgapi_wave_state" where
  "client_visible_state E s =
    (let state = m_state s
     in if state \<noteq> WAVE_STATE_STOP then Inr state
        else case last_stop_event s of
          Inl e \<Rightarrow> Inl e
        | Inr event \<Rightarrow>
            if (case event of
                  None \<Rightarrow> True
                | Some ev \<Rightarrow> state_rank (event_state ev) \<ge> state_rank reported)
            then Inr WAVE_STATE_STOP
            else Inr (if m_stop_reason s AND STOP_REASON_SINGLE_STEP (api E) \<noteq> 0
                      then WAVE_STATE_SINGLE_STEP
                      else WAVE_STATE_RUN))"

section \<open>State transitions\<close>

text \<open>The release of the displaced stepping buffer at the head of
  \<^verbatim>\<open>wave_t::terminate\<close>; \<^verbatim>\<open>displaced_stepping_t::release\<close> itself belongs to the
  process and is recorded as a call.\<close>

definition release_displaced_stepping :: "'hw dbg_state \<Rightarrow> 'hw dbg_state" where
  "release_displaced_stepping s =
    (case m_displaced_stepping s of
       None \<Rightarrow> s
     | Some ds \<Rightarrow> s\<lparr>m_displaced_stepping := None,
                    trace := trace s @ [Release_displaced_stepping (ds_id ds)]\<rparr>)"

text \<open>The first lambda of \<^verbatim>\<open>set_state\<close>: is the instruction about to be stepped a
  terminating one.\<close>

definition is_terminating_step ::
  "'hw env \<Rightarrow> 'hw dbg_state \<Rightarrow> instruction_t option \<Rightarrow> bool" where
  "is_terminating_step E s instruction =
    (case m_displaced_stepping s of
       Some ds \<Rightarrow> is_terminating_instruction (arch E) (ds_original_instruction ds)
     | None \<Rightarrow>
         (case instruction of
            None \<Rightarrow> False
          | Some i \<Rightarrow> is_terminating_instruction (arch E) i))"

text \<open>Parking and unparking after the architecture has changed the state
  (\<^verbatim>\<open>if (architecture.park_stopped_waves ())\<close>).\<close>

definition park_or_unpark ::
  "'hw env \<Rightarrow> amd_dbgapi_wave_state \<Rightarrow> 'hw dbg_state \<Rightarrow> error + 'hw dbg_state" where
  "park_or_unpark E state s =
    (if park_stopped_waves (arch E)
     then (if state = WAVE_STATE_STOP then park E s else unpark E s)
     else Inr s)"

text \<open>The block that saves \<^verbatim>\<open>m_last_stopped_pc\<close> and clears the stop reason when the
  wave leaves the stop state, and acknowledges a requested stop with an event.\<close>

definition leave_or_enter_stop ::
  "'hw env \<Rightarrow> amd_dbgapi_wave_state \<Rightarrow> amd_dbgapi_wave_state \<Rightarrow> 'hw dbg_state
    \<Rightarrow> error + 'hw dbg_state" where
  "leave_or_enter_stop E state prev_state s =
    (if state \<noteq> WAVE_STATE_STOP
     then (if prev_state \<noteq> WAVE_STATE_STOP then Inl Assertion_failed
           else case pc E s of
             Inl e \<Rightarrow> Inl e
           | Inr p \<Rightarrow> Inr (s\<lparr>m_last_stopped_pc := p, m_stop_reason := 0\<rparr>))
     else if prev_state \<noteq> WAVE_STATE_STOP
     then (let s1 = s\<lparr>m_stop_reason := 0\<rparr>
           in if m_visibility s1 \<noteq> visible then Inl Assertion_failed
              else Inr (raise_event
                          (if prev_state = WAVE_STATE_SINGLE_STEP
                           then EVENT_KIND_WAVE_COMMAND_TERMINATED
                           else EVENT_KIND_WAVE_STOP) s1))
     else Inr s)"

text \<open>The second lambda of \<^verbatim>\<open>set_state\<close>: simulate the instruction when it can be
  simulated; the result tells whether it was.\<close>

definition simulate_instruction ::
  "'hw env \<Rightarrow> 'hw dbg_state \<Rightarrow> instruction_t option \<Rightarrow> error + bool \<times> 'hw dbg_state" where
  "simulate_instruction E s instruction =
    (case m_displaced_stepping s of
       Some ds \<Rightarrow>
         if ds_is_simulated ds
         then (case simulate (arch E) s (ds_from ds) (ds_original_instruction ds) of
                 (r, h) \<Rightarrow>
                   Inr (r, s\<lparr>hw := h,
                             trace := trace s
                               @ [Simulate (ds_from ds) (ds_original_instruction ds)]\<rparr>))
         else Inr (False, s)
     | None \<Rightarrow>
         (case instruction of
            None \<Rightarrow> Inr (False, s)
          | Some i \<Rightarrow>
              if can_simulate (arch E) s i
              then (case pc E s of
                      Inl e \<Rightarrow> Inl e
                    | Inr p \<Rightarrow>
                        (case simulate (arch E) s p i of
                           (r, h) \<Rightarrow>
                             Inr (r, s\<lparr>hw := h, trace := trace s @ [Simulate p i]\<rparr>)))
              else Inr (False, s)))"

definition simulate_step ::
  "'hw env \<Rightarrow> amd_dbgapi_wave_state \<Rightarrow> amd_dbgapi_exceptions \<Rightarrow> instruction_t option
    \<Rightarrow> 'hw dbg_state \<Rightarrow> error + 'hw dbg_state" where
  "simulate_step E state exceptions instruction s =
    (if state = WAVE_STATE_SINGLE_STEP \<and> exceptions = 0
     then (case simulate_instruction E s instruction of
             Inl e \<Rightarrow> Inl e
           | Inr (simulated, s1) \<Rightarrow>
               if simulated
               then (case wave_get_state (arch E) s1 of
                       (st, sr) \<Rightarrow>
                         (case (if park_stopped_waves (arch E)
                                then park E (s1\<lparr>m_state := st, m_stop_reason := sr\<rparr>)
                                else Inr (s1\<lparr>m_state := st, m_stop_reason := sr\<rparr>)) of
                            Inl e \<Rightarrow> Inl e
                          | Inr s2 \<Rightarrow> Inr (raise_event EVENT_KIND_WAVE_STOP s2)))
               else Inr s1)
     else Inr s)"

text \<open>The lambda \<^verbatim>\<open>convert_one_exception\<close>.\<close>

definition convert_one_exception ::
  "'hw env \<Rightarrow> 'hw dbg_state \<Rightarrow> amd_dbgapi_exceptions \<Rightarrow> error + os_exception_mask" where
  "convert_one_exception E s one_exception =
    (if one_exception = EXCEPTION_WAVE_ABORT (api E)
     then Inr (queue_wave_abort (api E))
     else if one_exception = EXCEPTION_WAVE_TRAP (api E)
     then Inr (queue_wave_trap (api E))
     else if one_exception = EXCEPTION_WAVE_MATH_ERROR (api E)
     then Inr (queue_wave_math_error (api E))
     else if one_exception = EXCEPTION_WAVE_ILLEGAL_INSTRUCTION (api E)
     then Inr (queue_wave_illegal_instruction (api E))
     else if one_exception = EXCEPTION_WAVE_MEMORY_VIOLATION (api E)
     then Inr (queue_wave_memory_violation (api E)
               OR (agent_exceptions s AND device_memory_violation (api E)))
     else if one_exception = EXCEPTION_WAVE_APERTURE_VIOLATION (api E)
     then Inr (queue_wave_aperture_violation (api E))
     else Inl Assertion_failed)"

text \<open>The loop \<^verbatim>\<open>while (exceptions)\<close> that peels the lowest set bit.\<close>

function convert_exceptions ::
  "'hw env \<Rightarrow> 'hw dbg_state \<Rightarrow> amd_dbgapi_exceptions \<Rightarrow> os_exception_mask
    \<Rightarrow> error + os_exception_mask" where
  "convert_exceptions E s exceptions os_exceptions =
    (if exceptions = 0 then Inr os_exceptions
     else
       let one_exception = exceptions XOR (exceptions AND (exceptions - 1))
       in case convert_one_exception E s one_exception of
            Inl e \<Rightarrow> Inl e
          | Inr m \<Rightarrow>
              convert_exceptions E s (exceptions XOR one_exception) (os_exceptions OR m))"
  by pat_completeness auto

lemma peel_lowest_bit_less:
  fixes e :: "32 word"
  assumes "e \<noteq> 0"
  shows "unat (e AND (e - 1)) < unat e"
proof -
  have "e AND (e - 1) \<le> e - 1"
    by (rule word_and_le1)
  moreover have "e - 1 < e"
    using assms by (simp add: word_less_nat_alt unat_minus_one unat_gt_0)
  ultimately have "e AND (e - 1) < e"
    by simp
  then show ?thesis
    by (simp add: word_less_nat_alt)
qed

termination convert_exceptions
  by (relation "measure (\<lambda>(E, s, exceptions, os_exceptions). unat exceptions)")
    (auto simp add: peel_lowest_bit_less)

text \<open>The block that converts the exceptions and sends them to the queue.\<close>

definition send_exceptions_step ::
  "'hw env \<Rightarrow> amd_dbgapi_exceptions \<Rightarrow> 'hw dbg_state \<Rightarrow> error + 'hw dbg_state" where
  "send_exceptions_step E exceptions s =
    (if exceptions \<noteq> 0
     then (case convert_exceptions E s exceptions 0 of
             Inl e \<Rightarrow> Inl e
           | Inr os_exceptions \<Rightarrow>
               if os_exceptions AND os_queue_exception_mask (api E) = 0
               then Inl Assertion_failed
               else Inr (s\<lparr>trace := trace s @ [Send_exceptions os_exceptions]\<rparr>))
     else Inr s)"

text \<open>
  The last block of \<^verbatim>\<open>set_state\<close>. The waves of the process are this wave and
  \<open>other_waves\<close>, each with its agent, state and stop reason. Modelled from the spec:
  \<^verbatim>\<open>agent.clear_exceptions\<close> (not among the sources) clears the given bits of the
  agent's exceptions.
\<close>

definition clear_device_memory_violation ::
  "'hw env \<Rightarrow> amd_dbgapi_wave_state \<Rightarrow> 'hw dbg_state \<Rightarrow> 'hw dbg_state" where
  "clear_device_memory_violation E state s =
    (if agent_exceptions s AND device_memory_violation (api E) \<noteq> 0
        \<and> state \<noteq> WAVE_STATE_STOP
     then
       if list_ex (\<lambda>(a, st, sr). a = agent_id s \<and> st = WAVE_STATE_STOP
                     \<and> sr AND STOP_REASON_MEMORY_VIOLATION (api E) \<noteq> 0)
            ((agent_id s, m_state s, m_stop_reason s) # other_waves s)
       then s
       else s\<lparr>agent_exceptions :=
                 agent_exceptions s AND NOT (device_memory_violation (api E)),
               trace := trace s @ [Clear_exceptions (device_memory_violation (api E))]\<rparr>
     else s)"

text \<open>
  The part of \<^verbatim>\<open>set_state\<close> after the test for a terminating instruction: the call of
  \<^verbatim>\<open>architecture.wave_set_state\<close> and everything that follows it. (The log messages
  of the source are left out throughout.)
\<close>

definition set_state_commit ::
  "'hw env \<Rightarrow> amd_dbgapi_wave_state \<Rightarrow> amd_dbgapi_exceptions \<Rightarrow> amd_dbgapi_wave_state
    \<Rightarrow> instruction_t option \<Rightarrow> 'hw dbg_state \<Rightarrow> error + 'hw dbg_state" where
  "set_state_commit E state exceptions prev_state instruction s =
    (let s1 = s\<lparr>hw := wave_set_state (arch E) s state exceptions,
               trace := trace s @ [Wave_set_state state exceptions]\<rparr>;
         s2 = s1\<lparr>m_state := state\<rparr>
     in case park_or_unpark E state s2 of
          Inl e \<Rightarrow> Inl e
        | Inr s3 \<Rightarrow>
            (case leave_or_enter_stop E state prev_state s3 of
               Inl e \<Rightarrow> Inl e
             | Inr s4 \<Rightarrow>
                 (case simulate_step E state exceptions instruction s4 of
                    Inl e \<Rightarrow> Inl e
                  | Inr s5 \<Rightarrow>
                      (case send_exceptions_step E exceptions s5 of
                         Inl e \<Rightarrow> Inl e
                       | Inr s6 \<Rightarrow> Inr (clear_device_memory_violation E state s6)))))"

text \<open>
  \<^verbatim>\<open>wave_t::set_state (state, exceptions)\<close> and \<^verbatim>\<open>wave_t::terminate ()\<close>, which
  call each other: \<^verbatim>\<open>set_state\<close> terminates a wave that would single-step a
  terminating instruction, and \<^verbatim>\<open>terminate\<close> ends with \<^verbatim>\<open>set_state (RUN)\<close>.
\<close>

function set_state ::
    "'hw env \<Rightarrow> amd_dbgapi_wave_state \<Rightarrow> amd_dbgapi_exceptions \<Rightarrow> 'hw dbg_state
      \<Rightarrow> error + 'hw dbg_state"
  and terminate :: "'hw env \<Rightarrow> 'hw dbg_state \<Rightarrow> error + 'hw dbg_state" where
  "set_state E state exceptions s =
    (if \<not> (exceptions = 0 \<or> state \<noteq> WAVE_STATE_STOP) then Inl Assertion_failed
     else
       let prev_state = m_state s
       in if state = prev_state then Inr s
          else if \<not> (m_displaced_stepping s = None \<or> state \<noteq> WAVE_STATE_RUN)
          then Inl Assertion_failed
          else
            let s1 = s\<lparr>m_stop_requested := (state = WAVE_STATE_STOP)\<rparr>
            in case (if state = WAVE_STATE_SINGLE_STEP then instruction_at_pc E s1 0
                     else Inr None) of
                 Inl e \<Rightarrow> Inl e
               | Inr instruction \<Rightarrow>
                   if state = WAVE_STATE_SINGLE_STEP \<and> exceptions = 0
                      \<and> is_terminating_step E s1 instruction
                   then (case terminate E s1 of
                           Inl e \<Rightarrow> Inl e
                         | Inr s2 \<Rightarrow>
                             Inr (raise_event EVENT_KIND_WAVE_COMMAND_TERMINATED s2))
                   else set_state_commit E state exceptions prev_state instruction s1)"
| "terminate E s =
    (let s1 = release_displaced_stepping s
     in case write_register E (regnum_pc (regs E)) 0
               (to_bytes 8 (terminating_instruction_address (proc E))) s1 of
          Inl e \<Rightarrow> Inl e
        | Inr s2 \<Rightarrow>
            (case set_visibility E hidden_at_terminating_instruction s2 of
               Inl e \<Rightarrow> Inl e
             | Inr s3 \<Rightarrow> set_state E WAVE_STATE_RUN 0 s3))"
  by pat_completeness auto

termination
  by (relation "measure (\<lambda>x. case x of
        Inl (E, state, exceptions, s) \<Rightarrow> (if state = WAVE_STATE_SINGLE_STEP then 2 else 0)
      | Inr (E, s) \<Rightarrow> 1)") auto

section \<open>Entry points of the library\<close>

text \<open>
  \<^verbatim>\<open>find (wave_id)\<close>: the state holds one wave; it is found under its own identifier
  as long as it exists.
\<close>

definition find_wave :: "'hw dbg_state \<Rightarrow> nat \<Rightarrow> bool" where
  "find_wave s wave_id \<longleftrightarrow> wave_exists s \<and> wave_id = m_id s"

text \<open>
  \<^verbatim>\<open>scoped_queue_suspend_t\<close>: the constructor suspends the queue of the wave, the
  destructor resumes it when the scope is left. What the queue does then (it updates
  its waves) is the parameter \<open>queue_suspend\<close> and \<open>queue_resume\<close>.
\<close>

definition scoped_queue_suspend :: "'hw env \<Rightarrow> 'hw dbg_state \<Rightarrow> 'hw dbg_state" where
  "scoped_queue_suspend E s =
    queue_suspend (proc E) (s\<lparr>trace := trace s @ [Suspend_queue]\<rparr>)"

definition scoped_queue_release :: "'hw env \<Rightarrow> 'hw dbg_state \<Rightarrow> 'hw dbg_state" where
  "scoped_queue_release E s =
    queue_resume (proc E) (s\<lparr>trace := trace s @ [Resume_queue]\<rparr>)"

text \<open>
  \<^verbatim>\<open>amd_dbgapi_wave_stop (wave_id)\<close>. An entry point returns its status and the new
  state; \<open>Inl\<close> is an exception, fatal error or failed assertion raised inside
  \<^verbatim>\<open>TRY\<close> \<dots> \<^verbatim>\<open>CATCH\<close> (the macros are not among the sources).
\<close>

definition amd_dbgapi_wave_stop ::
  "'hw env \<Rightarrow> nat \<Rightarrow> 'hw dbg_state \<Rightarrow> error + amd_dbgapi_status \<times> 'hw dbg_state" where
  "amd_dbgapi_wave_stop E wave_id s =
    (if \<not> is_initialized s then Inr (ERROR_NOT_INITIALIZED, s)
     else if \<not> find_wave s wave_id then Inr (ERROR_INVALID_WAVE_ID, s)
     else case client_visible_state E s of
       Inl e \<Rightarrow> Inl e
     | Inr visible_state \<Rightarrow>
         if visible_state = WAVE_STATE_STOP then Inr (ERROR_WAVE_STOPPED, s)
         else if m_stop_requested s then Inr (ERROR_WAVE_OUTSTANDING_STOP, s)
         else
           let s1 = scoped_queue_suspend E s
           in if \<not> find_wave s1 wave_id
              then Inr (ERROR_INVALID_WAVE_ID, scoped_queue_release E s1)
              else case set_state E WAVE_STATE_STOP 0 s1 of
                Inl e \<Rightarrow> Inl e
              | Inr s2 \<Rightarrow> Inr (STATUS_SUCCESS, scoped_queue_release E s2))"

text \<open>\<^verbatim>\<open>amd_dbgapi_wave_resume (wave_id, resume_mode, exceptions)\<close>.\<close>

definition valid_exceptions_mask :: "'hw env \<Rightarrow> amd_dbgapi_exceptions" where
  "valid_exceptions_mask E =
    EXCEPTION_WAVE_ABORT (api E) OR EXCEPTION_WAVE_TRAP (api E)
    OR EXCEPTION_WAVE_MATH_ERROR (api E)
    OR EXCEPTION_WAVE_ILLEGAL_INSTRUCTION (api E)
    OR EXCEPTION_WAVE_MEMORY_VIOLATION (api E)
    OR EXCEPTION_WAVE_APERTURE_VIOLATION (api E)"

definition amd_dbgapi_wave_resume ::
  "'hw env \<Rightarrow> nat \<Rightarrow> amd_dbgapi_resume_mode \<Rightarrow> amd_dbgapi_exceptions \<Rightarrow> 'hw dbg_state
    \<Rightarrow> error + amd_dbgapi_status \<times> 'hw dbg_state" where
  "amd_dbgapi_wave_resume E wave_id resume_mode exceptions s =
    (if \<not> is_initialized s then Inr (ERROR_NOT_INITIALIZED, s)
     else if \<not> find_wave s wave_id then Inr (ERROR_INVALID_WAVE_ID, s)
     else if resume_mode \<noteq> RESUME_MODE_NORMAL \<and> resume_mode \<noteq> RESUME_MODE_SINGLE_STEP
     then Inr (ERROR_INVALID_ARGUMENT, s)
     else if exceptions AND NOT (valid_exceptions_mask E) \<noteq> 0
     then Inr (ERROR_INVALID_ARGUMENT, s)
     else case client_visible_state E s of
       Inl e \<Rightarrow> Inl e
     | Inr visible_state \<Rightarrow>
         if visible_state \<noteq> WAVE_STATE_STOP then Inr (ERROR_WAVE_NOT_STOPPED, s)
         else case last_stop_event s of
           Inl e \<Rightarrow> Inl e
         | Inr event \<Rightarrow>
             if (case event of
                   None \<Rightarrow> False
                 | Some ev \<Rightarrow> state_rank (event_state ev) < state_rank processed)
             then Inr (ERROR_WAVE_NOT_RESUMABLE, s)
             else if m_displaced_stepping s \<noteq> None
                     \<and> resume_mode \<noteq> RESUME_MODE_SINGLE_STEP
             then Inr (ERROR_RESUME_DISPLACED_STEPPING, s)
             else
               let s1 = scoped_queue_suspend E s
               in if \<not> find_wave s1 wave_id
                  then Inr (ERROR_INVALID_WAVE_ID, scoped_queue_release E s1)
                  else case set_state E
                              (if resume_mode = RESUME_MODE_SINGLE_STEP
                               then WAVE_STATE_SINGLE_STEP else WAVE_STATE_RUN)
                              exceptions s1 of
                    Inl e \<Rightarrow> Inl e
                  | Inr s2 \<Rightarrow> Inr (STATUS_SUCCESS, scoped_queue_release E s2))"

section \<open>Swizzled private memory\<close>

text \<open>
  \<^verbatim>\<open>wave_t::xfer_private_memory_swizzled\<close>. A transfer reads (\<open>None\<close>) or writes the
  given bytes (\<open>Some\<close>). One iteration of the loop is \<open>swizzled_chunk\<close>; it ends the
  function with a status (\<open>Return\<close>), leaves the loop (\<open>Break\<close>) or goes on with the
  next segment address (\<open>Continue\<close>). Each iteration is also recorded as a \<open>chunk_t\<close>:
  its segment address, the size it asks for, and the global address and size it hands to
  the memory access.
\<close>

record chunk_t =
  chunk_segment_address :: amd_dbgapi_segment_address
  chunk_request_size :: size_t
  chunk_global_address :: amd_dbgapi_global_address
  chunk_xfer_size :: size_t

record 'hw xfer_t =
  xfer_bytes :: size_t
  xfer_read :: "byte list"
  xfer_write :: "byte list option"
  xfer_chunks :: "chunk_t list"
  xfer_state :: "'hw dbg_state"

datatype 'hw chunk_result =
  Return amd_dbgapi_status "'hw xfer_t"
| Break "'hw xfer_t"
| Continue amd_dbgapi_segment_address "'hw xfer_t"

definition swizzled_offset ::
  "size_t \<Rightarrow> amd_dbgapi_lane_id \<Rightarrow> amd_dbgapi_segment_address \<Rightarrow> amd_dbgapi_size" where
  "swizzled_offset lane_count lane_id segment_address =
    ((segment_address div 4) * lane_count * 4) + ucast (lane_id * 4)
    + (segment_address mod 4)"

definition swizzled_chunk ::
  "'hw env \<Rightarrow> amd_dbgapi_global_address \<Rightarrow> amd_dbgapi_size \<Rightarrow> amd_dbgapi_lane_id
    \<Rightarrow> amd_dbgapi_segment_address \<Rightarrow> 'hw xfer_t \<Rightarrow> 'hw chunk_result" where
  "swizzled_chunk E scratch_base scratch_size lane_id segment_address x =
    (let s = xfer_state x;
         bytes = xfer_bytes x;
         request_size = min (4 - (segment_address mod 4)) bytes;
         offset = swizzled_offset (m_lane_count s) lane_id segment_address;
         xfer_size = (if offset + request_size > scratch_size
                      then (if offset < scratch_size then scratch_size - offset else 0)
                      else request_size)
     in if offset + request_size > scratch_size \<and> xfer_size = 0
        then Return ERROR_MEMORY_ACCESS x
        else
          let global_address = scratch_base + offset;
              chunk = \<lparr>chunk_segment_address = segment_address,
                       chunk_request_size = request_size,
                       chunk_global_address = global_address,
                       chunk_xfer_size = xfer_size\<rparr>;
              (status, done, x1) =
                (case xfer_write x of
                   None \<Rightarrow>
                     (case read_global_memory_partial (proc E) (hw s) global_address
                             xfer_size of
                        (status, data) \<Rightarrow>
                          (status, of_nat (length data),
                           x\<lparr>xfer_read := xfer_read x @ data,
                             xfer_chunks := xfer_chunks x @ [chunk],
                             xfer_state := s\<lparr>trace := trace s
                               @ [Read_global_memory_partial global_address xfer_size]\<rparr>\<rparr>))
                 | Some data \<Rightarrow>
                     (case write_global_memory_partial (proc E) (hw s) global_address
                             (take (unat xfer_size) data) of
                        (status, written, h) \<Rightarrow>
                          (status, written,
                           x\<lparr>xfer_write := Some (drop (unat written) data),
                             xfer_chunks := xfer_chunks x @ [chunk],
                             xfer_state := s\<lparr>hw := h, trace := trace s
                               @ [Write_global_memory_partial global_address
                                    (take (unat xfer_size) data)]\<rparr>\<rparr>)))
          in if status \<noteq> STATUS_SUCCESS then Return status x1
             else
               let x2 = x1\<lparr>xfer_bytes := bytes - done\<rparr>
               in if request_size \<noteq> done then Break x2
                  else Continue (segment_address + done) x2)"

lemma request_size_bounds:
  fixes a b :: "64 word"
  assumes "b \<noteq> 0"
  shows "min (4 - a mod 4) b \<noteq> 0" and "min (4 - a mod 4) b \<le> b"
proof -
  have "unat (a mod 4) < 4"
    by (simp add: unat_mod)
  then have "a mod 4 \<noteq> 4"
    by auto
  then have "4 - a mod 4 \<noteq> 0"
    by simp
  with assms show "min (4 - a mod 4) b \<noteq> 0"
    by (simp add: min_def)
  show "min (4 - a mod 4) b \<le> b"
    by simp
qed

lemma swizzled_chunk_decreases:
  assumes "xfer_bytes x \<noteq> 0"
    and "swizzled_chunk E scratch_base scratch_size lane_id segment_address x = Continue a x'"
  shows "unat (xfer_bytes x') < unat (xfer_bytes x)"
proof -
  let ?r = "min (4 - segment_address mod 4) (xfer_bytes x)"
  have r: "?r \<noteq> 0" "?r \<le> xfer_bytes x"
    using request_size_bounds [OF assms(1)] by blast+
  have "xfer_bytes x' = xfer_bytes x - ?r"
    using assms(2)
    by (auto simp add: swizzled_chunk_def Let_def split: if_splits option.splits prod.splits)
  moreover have "unat (xfer_bytes x - ?r) = unat (xfer_bytes x) - unat ?r"
    using r(2) by (simp add: unat_sub)
  moreover have "0 < unat ?r"
    using r(1) by (simp add: unat_gt_0)
  moreover have "unat ?r \<le> unat (xfer_bytes x)"
    using r(2) by (simp add: word_le_nat_alt)
  ultimately show ?thesis
    by simp
qed

function xfer_swizzled_loop ::
  "'hw env \<Rightarrow> amd_dbgapi_global_address \<Rightarrow> amd_dbgapi_size \<Rightarrow> amd_dbgapi_lane_id
    \<Rightarrow> amd_dbgapi_segment_address \<Rightarrow> 'hw xfer_t \<Rightarrow> amd_dbgapi_status option \<times> 'hw xfer_t"
  where
  "xfer_swizzled_loop E scratch_base scratch_size lane_id segment_address x =
    (if xfer_bytes x = 0 then (None, x)
     else case swizzled_chunk E scratch_base scratch_size lane_id segment_address x of
       Return status x' \<Rightarrow> (Some status, x')
     | Break x' \<Rightarrow> (None, x')
     | Continue a x' \<Rightarrow> xfer_swizzled_loop E scratch_base scratch_size lane_id a x')"
  by pat_completeness auto

termination
  by (relation "measure (\<lambda>(E, scratch_base, scratch_size, lane_id, a, x). unat (xfer_bytes x))")
    (auto simp add: swizzled_chunk_decreases)


section \<open>Queries\<close>

text \<open>\<^verbatim>\<open>wave_t::get_info (query, value_size, value)\<close>. The result is the status,
  the value copied to the client when the copy succeeded, and the state.\<close>

definition copy_to_client ::
  "'hw env \<Rightarrow> nat \<Rightarrow> info_value \<Rightarrow> 'hw dbg_state
    \<Rightarrow> error + amd_dbgapi_status \<times> info_value option \<times> 'hw dbg_state" where
  "copy_to_client E value_size v s =
    (let status = utils_get_info (proc E) value_size v
     in Inr (status, if status = STATUS_SUCCESS then Some v else None, s))"

definition get_info_watchpoints ::
  "'hw env \<Rightarrow> nat \<Rightarrow> 'hw dbg_state
    \<Rightarrow> error + amd_dbgapi_status \<times> info_value option \<times> 'hw dbg_state" where
  "get_info_watchpoints E value_size s =
    (let os_watch_ids = triggered_watchpoints (arch E) s;
         count = (of_nat (length os_watch_ids) :: size_t);
         watchpoint_ids =
           allocate_memory (proc E) (hw s) (count * sizeof_watchpoint_id (api E));
         s1 = s\<lparr>trace := trace s
                @ [Allocate_memory (count * sizeof_watchpoint_id (api E))]\<rparr>
     in if count \<noteq> 0 \<and> watchpoint_ids = None
        then Inr (ERROR_CLIENT_CALLBACK, None, s1)
        else case those (map (find_watchpoint (proc E)) os_watch_ids) of
          None \<Rightarrow> Inl Fatal_error
        | Some ids \<Rightarrow>
            (let list = Info_watchpoint_list ids watchpoint_ids;
                 status = utils_get_info (proc E) value_size list
             in if status \<noteq> STATUS_SUCCESS
                then Inr (status, None,
                          s1\<lparr>trace := trace s1 @ [Deallocate_memory watchpoint_ids]\<rparr>)
                else Inr (status, Some list, s1)))"

definition get_info ::
  "'hw env \<Rightarrow> amd_dbgapi_wave_info \<Rightarrow> nat \<Rightarrow> 'hw dbg_state
    \<Rightarrow> error + amd_dbgapi_status \<times> info_value option \<times> 'hw dbg_state" where
  "get_info E query value_size s =
    (case query of
       WAVE_INFO_STATE \<Rightarrow>
         (case client_visible_state E s of
            Inl e \<Rightarrow> Inl e
          | Inr st \<Rightarrow> copy_to_client E value_size (Info_state st) s)
     | WAVE_INFO_STOP_REASON \<Rightarrow>
         copy_to_client E value_size (Info_stop_reason (m_stop_reason s)) s
     | WAVE_INFO_DISPATCH \<Rightarrow>
         if dispatch_id s = DISPATCH_NONE (api E) then Inr (ERROR_NOT_AVAILABLE, None, s)
         else copy_to_client E value_size (Info_handle (dispatch_id s)) s
     | WAVE_INFO_QUEUE \<Rightarrow> copy_to_client E value_size (Info_handle (queue_id s)) s
     | WAVE_INFO_AGENT \<Rightarrow> copy_to_client E value_size (Info_handle (agent_id s)) s
     | WAVE_INFO_PROCESS \<Rightarrow> copy_to_client E value_size (Info_handle (process_id s)) s
     | WAVE_INFO_ARCHITECTURE \<Rightarrow>
         copy_to_client E value_size (Info_handle (architecture_id s)) s
     | WAVE_INFO_PC \<Rightarrow>
         (case pc E s of
            Inl e \<Rightarrow> Inl e
          | Inr p \<Rightarrow> copy_to_client E value_size (Info_address p) s)
     | WAVE_INFO_EXEC_MASK \<Rightarrow>
         (case exec_mask E s of
            Inl e \<Rightarrow> Inl e
          | Inr m \<Rightarrow> copy_to_client E value_size (Info_exec_mask m) s)
     | WAVE_INFO_WORK_GROUP_COORD \<Rightarrow>
         if dispatch_id s = DISPATCH_NONE (api E) then Inr (ERROR_NOT_AVAILABLE, None, s)
         else copy_to_client E value_size (Info_group_ids (m_group_ids s)) s
     | WAVE_INFO_WAVE_NUMBER_IN_WORK_GROUP \<Rightarrow>
         if dispatch_id s = DISPATCH_NONE (api E) then Inr (ERROR_NOT_AVAILABLE, None, s)
         else copy_to_client E value_size (Info_wave_in_group (m_wave_in_group s)) s
     | WAVE_INFO_WATCHPOINTS \<Rightarrow> get_info_watchpoints E value_size s
     | WAVE_INFO_LANE_COUNT \<Rightarrow>
         copy_to_client E value_size (Info_lane_count (m_lane_count s)) s
     | WAVE_INFO_OTHER n \<Rightarrow> Inr (ERROR_INVALID_ARGUMENT, None, s))"

text \<open>\<^verbatim>\<open>amd_dbgapi_wave_get_info (wave_id, query, value_size, value)\<close>.\<close>

definition amd_dbgapi_wave_get_info ::
  "'hw env \<Rightarrow> nat \<Rightarrow> amd_dbgapi_wave_info \<Rightarrow> nat \<Rightarrow> 'hw dbg_state
    \<Rightarrow> error + amd_dbgapi_status \<times> info_value option \<times> 'hw dbg_state" where
  "amd_dbgapi_wave_get_info E wave_id query value_size s =
    (if \<not> is_initialized s then Inr (ERROR_NOT_INITIALIZED, None, s)
     else if \<not> find_wave s wave_id then Inr (ERROR_INVALID_WAVE_ID, None, s)
     else if query \<in> {WAVE_INFO_STOP_REASON, WAVE_INFO_PC, WAVE_INFO_EXEC_MASK,
                       WAVE_INFO_WATCHPOINTS}
     then (case client_visible_state E s of
             Inl e \<Rightarrow> Inl e
           | Inr st \<Rightarrow>
               if st \<noteq> WAVE_STATE_STOP then Inr (ERROR_WAVE_NOT_STOPPED, None, s)
               else get_info E query value_size s)
     else get_info E query value_size s)"

section \<open>A concrete instance\<close>

text \<open>
  A small instance on which the definitions are evaluated: the hardware state is the
  halt bit of the wave, every register and memory read returns zero bytes, every write
  succeeds, and the architecture parks stopped waves.
\<close>

definition demo_api :: api_constants where
  "demo_api = \<lparr>EXCEPTION_WAVE_ABORT = 1, EXCEPTION_WAVE_TRAP = 2,
     EXCEPTION_WAVE_MATH_ERROR = 4, EXCEPTION_WAVE_ILLEGAL_INSTRUCTION = 8,
     EXCEPTION_WAVE_MEMORY_VIOLATION = 16, EXCEPTION_WAVE_APERTURE_VIOLATION = 32,
     STOP_REASON_SINGLE_STEP = 4, STOP_REASON_MEMORY_VIOLATION = 512,
     LANE_NONE = - 1, DISPATCH_NONE = 0, sizeof_watchpoint_id = 8,
     queue_wave_abort = 1, queue_wave_trap = 2, queue_wave_math_error = 4,
     queue_wave_illegal_instruction = 8, queue_wave_memory_violation = 16,
     queue_wave_aperture_violation = 32, device_memory_violation = 64,
     os_queue_exception_mask = 63\<rparr>"

definition demo_regs :: regnum_layout where
  "demo_regs = \<lparr>regnum_pc = 100, regnum_wave_id = 101, regnum_dispatch_grid = 102,
     regnum_wave_in_group = 103, regnum_exec_32 = 104, regnum_exec_64 = 105,
     regnum_s0 = 20, regnum_v0_32 = 0, regnum_v0_64 = 10,
     first_sgpr = 20, last_sgpr = 29, first_vgpr = 0, last_vgpr = 19,
     first_ttmp = 40, last_ttmp = 49, is_pseudo_register = (\<lambda>r. 200 \<le> r)\<rparr>"

definition demo_arch :: "bool architecture_t" where
  "demo_arch = \<lparr>wave_get_state = (\<lambda>s. (WAVE_STATE_STOP, 4)),
     wave_set_state = (\<lambda>s st e. hw s),
     wave_get_halt = (\<lambda>s. hw s),
     wave_set_halt = (\<lambda>s b. b),
     can_simulate = (\<lambda>s i. False),
     simulate = (\<lambda>s a i. (False, hw s)),
     is_terminating_instruction = (\<lambda>i. i \<noteq> []),
     register_size = (\<lambda>r. 8),
     park_stopped_waves = True,
     largest_instruction_size = 4,
     triggered_watchpoints = (\<lambda>s. [3, 5]),
     read_pseudo_register = (\<lambda>s r off n. Inr (replicate n 0)),
     write_pseudo_register = (\<lambda>s r off v. Inr (hw s))\<rparr>"

definition demo_proc :: "bool process_t" where
  "demo_proc = \<lparr>read_global_memory = (\<lambda>h a n. Some (replicate n 0)),
     write_global_memory = (\<lambda>h a v. Some h),
     read_global_memory_partial = (\<lambda>h a n. (STATUS_SUCCESS, replicate (unat n) 0)),
     write_global_memory_partial = (\<lambda>h a v. (STATUS_SUCCESS, of_nat (length v), h)),
     cache_contains = (\<lambda>h a n. True),
     cache_read = (\<lambda>h a n. Some (replicate n 0)),
     cache_write = (\<lambda>h a v. Some h),
     cache_is_dirty = (\<lambda>h. True),
     register_dirty_cache = (\<lambda>h. h),
     queue_is_suspended = (\<lambda>h. True),
     queue_suspend = (\<lambda>s. s),
     queue_resume = (\<lambda>s. s),
     park_instruction_address = 4096,
     terminating_instruction_address = 8192,
     scratch_memory_region = (\<lambda>c. (65536, 4096)),
     find_watchpoint = (\<lambda>i. Some (i + 100)),
     allocate_memory = (\<lambda>h n. None),
     utils_get_info = (\<lambda>n v. if n = 16 then STATUS_SUCCESS
                              else ERROR_INVALID_ARGUMENT_COMPATIBILITY)\<rparr>"

definition demo_env :: "bool env" where
  "demo_env = \<lparr>api = demo_api, regs = demo_regs, arch = demo_arch, proc = demo_proc\<rparr>"

definition demo_event :: "event_state_t \<Rightarrow> event_t" where
  "demo_event st = \<lparr>event_id = 7, event_kind = EVENT_KIND_WAVE_STOP, event_wave_id = 1,
     event_state = st\<rparr>"

text \<open>The wave of the instance in a given state, with its last stop event in a given
  event state; a stopped wave is parked, as the architecture of the instance asks.\<close>

definition demo_wave :: "amd_dbgapi_wave_state \<Rightarrow> event_state_t \<Rightarrow> bool dbg_state" where
  "demo_wave st est = \<lparr>m_id = 1, m_state = st, m_visibility = visible, m_stop_reason = 1,
     m_stop_requested = False, m_is_parked = (st = WAVE_STATE_STOP), m_parked_pc = 12288,
     m_last_stopped_pc = 0, m_last_stop_event_id = 7, m_displaced_stepping = None,
     m_cwsr_record = \<lparr>register_address = (\<lambda>r. Some (of_nat r * 8)), is_priv = True,
       lds_size = 0\<rparr>,
     m_lane_count = 64, m_group_ids = [0, 0, 0], m_wave_in_group = 0,
     dispatch_id = 1, queue_id = 1, agent_id = 1, process_id = 1, architecture_id = 1,
     hw = False, events = [demo_event est], next_event_id = 8, agent_exceptions = 0,
     other_waves = [], waves_changed = False, wave_exists = True, is_initialized = True,
     trace = []\<rparr>"

definition demo_displaced_stepping :: displaced_stepping_t where
  "demo_displaced_stepping = \<lparr>ds_id = 3, ds_from = 12288, ds_to = 983040,
     ds_original_instruction = [1, 2, 3, 4], ds_is_simulated = False\<rparr>"

text \<open>A running wave that is still halted at launch, and a stopped wave with an
  outstanding displaced stepping whose stop event is reported but not processed.\<close>

definition demo_halted :: "bool dbg_state" where
  "demo_halted = (demo_wave WAVE_STATE_RUN processed)
     \<lparr>m_visibility := hidden_halted_at_launch, hw := True\<rparr>"

definition demo_displaced :: "bool dbg_state" where
  "demo_displaced = (demo_wave WAVE_STATE_STOP reported)
     \<lparr>m_displaced_stepping := Some demo_displaced_stepping\<rparr>"

section \<open>Auxiliary notions\<close>

text \<open>
  The pc is a plain register of the context save area when it is not a pseudo register,
  is at least eight bytes wide, has an address in the context save record, and is not a
  trap temporary hidden from an unprivileged wave. (The numbering of the registers and
  their sizes are not among the sources; on the architectures of the library the pc is
  such a register.)
\<close>

definition pc_is_plain :: "'hw env \<Rightarrow> 'hw dbg_state \<Rightarrow> bool" where
  "pc_is_plain E s \<longleftrightarrow>
     \<not> is_pseudo_register (regs E) (regnum_pc (regs E))
     \<and> 8 \<le> register_size (arch E) (regnum_pc (regs E))
     \<and> register_address (m_cwsr_record s) (regnum_pc (regs E)) \<noteq> None
     \<and> \<not> (in_range (first_ttmp (regs E)) (last_ttmp (regs E)) (regnum_pc (regs E))
          \<and> \<not> is_priv (m_cwsr_record s))"

text \<open>
  Every register access is served by the register cache: the cache holds every address
  and its reads and writes succeed.
\<close>

definition registers_in_cache :: "'hw env \<Rightarrow> bool" where
  "registers_in_cache E \<longleftrightarrow>
     (\<forall>h a n. cache_contains (proc E) h a n \<and> cache_read (proc E) h a n \<noteq> None)
     \<and> (\<forall>h a v. cache_write (proc E) h a v \<noteq> None)"

text \<open>The calls by which a register write reaches the register cache or the memory,
  and the relation between two states that differ by register accesses only.\<close>

fun is_register_call :: "call \<Rightarrow> bool" where
  "is_register_call (Cache_write a v) = True"
| "is_register_call Register_dirty_cache = True"
| "is_register_call (Write_global_memory a v) = True"
| "is_register_call (Write_pseudo_register r off v) = True"
| "is_register_call c = False"

definition reg_frame :: "'hw dbg_state \<Rightarrow> 'hw dbg_state \<Rightarrow> bool" where
  "reg_frame s s' \<longleftrightarrow>
     (\<exists>t. s' = s\<lparr>hw := hw s', m_parked_pc := m_parked_pc s', m_is_parked := m_is_parked s',
                  trace := trace s @ t\<rparr>
          \<and> list_all is_register_call t)"






text \<open>The instance without triggered watchpoints.\<close>

definition demo_env_no_watchpoints :: "bool env" where
  "demo_env_no_watchpoints =
     demo_env\<lparr>arch := demo_arch\<lparr>triggered_watchpoints := (\<lambda>s. [])\<rparr>\<rparr>"

lemmas demo_defs =
  demo_api_def demo_regs_def demo_arch_def demo_proc_def demo_env_def demo_event_def
  demo_wave_def demo_displaced_stepping_def

declare set_state.simps [simp del] terminate.simps [simp del]
  convert_exceptions.simps [simp del] xfer_swizzled_loop.simps [simp del]

lemmas eval_defs =
  set_state_commit_def park_or_unpark_def park_def unpark_def pc_def read_register_def
  write_register_def in_range_def leave_or_enter_stop_def simulate_step_def
  simulate_instruction_def send_exceptions_step_def convert_one_exception_def
  clear_device_memory_violation_def raise_event_def instruction_at_pc_def
  is_terminating_step_def release_displaced_stepping_def set_visibility_def Let_def


section \<open>Bytes\<close>

lemma length_to_bytes [simp]: "length (to_bytes n w) = n"
  by (induction n arbitrary: w) auto

lemma from_bytes_to_bytes: "from_bytes (to_bytes n w) = take_bit (8 * n) w"
proof (induction n arbitrary: w)
  case 0
  show ?case by simp
next
  case (Suc n)
  show ?case
    by (simp add: Suc, rule bit_word_eqI) (auto simp add: bit_simps)
qed

lemma from_bytes_to_bytes_8 [simp]: "from_bytes (to_bytes 8 w) = w"
  by (simp add: from_bytes_to_bytes take_bit_word_eq_self)

lemma from_bytes_zero [simp]: "from_bytes (replicate n 0) = 0"
  by (induction n) simp_all

lemma to_bytes_take_bit: "k \<le> j \<Longrightarrow> to_bytes k (take_bit (8 * j) w) = to_bytes k w"
proof (induction k arbitrary: j w)
  case 0
  show ?case by simp
next
  case (Suc k)
  then obtain i where j: "j = Suc i" and ki: "k \<le> i"
    by (cases j) auto
  have 1: "(ucast (take_bit (8 * Suc i) w :: 64 word) :: 8 word) = ucast w"
    by (rule bit_word_eqI) (auto simp add: bit_simps)
  have 2: "drop_bit 8 (take_bit (8 * Suc i) w) = take_bit (8 * i) (drop_bit 8 w)"
    by (rule bit_word_eqI) (auto simp add: bit_simps)
  show ?case
    unfolding j to_bytes.simps 1 2 by (simp add: Suc.IH [OF ki])
qed

lemma to_bytes_from_bytes:
  "length bs = n \<Longrightarrow> n \<le> 8 \<Longrightarrow> to_bytes n (from_bytes bs) = bs"
proof (induction bs arbitrary: n)
  case Nil
  then show ?case by simp
next
  case (Cons b bs)
  then obtain m where n: "n = Suc m" and m: "length bs = m" "m \<le> 7"
    by (cases n) auto
  have a: "(ucast (ucast b OR push_bit 8 (from_bytes bs) :: 64 word) :: 8 word) = b"
    by (rule bit_word_eqI) (auto simp add: bit_simps)
  have b: "drop_bit 8 (ucast b OR push_bit 8 (from_bytes bs) :: 64 word)
      = take_bit (8 * 7) (from_bytes bs)"
    by (rule bit_word_eqI) (auto simp add: bit_simps dest: bit_imp_le_length)
  have "to_bytes m (from_bytes bs) = bs"
    using Cons.IH [OF m(1)] m by simp
  then show ?case
    unfolding n from_bytes.simps to_bytes.simps a b
    by (simp only: to_bytes_take_bit [OF m(2)])
qed

section \<open>Register accesses leave the rest of the state alone\<close>

lemma reg_frame_refl: "reg_frame s s"
  unfolding reg_frame_def by (rule exI [of _ "[]"]) simp

lemma reg_frameI:
  assumes "s' = s\<lparr>hw := h, m_parked_pc := p, m_is_parked := k, trace := trace s @ t\<rparr>"
    and "list_all is_register_call t"
  shows "reg_frame s s'"
  unfolding reg_frame_def by (rule exI [of _ t]) (simp add: assms)

lemma reg_frameE:
  assumes "reg_frame s s'"
  obtains h p k t where
    "s' = s\<lparr>hw := h, m_parked_pc := p, m_is_parked := k, trace := trace s @ t\<rparr>"
    "list_all is_register_call t"
  using assms unfolding reg_frame_def by blast

lemma reg_frame_trans:
  assumes "reg_frame s s'" and "reg_frame s' s''"
  shows "reg_frame s s''"
proof -
  from assms(1) obtain h p k t where
    1: "s' = s\<lparr>hw := h, m_parked_pc := p, m_is_parked := k, trace := trace s @ t\<rparr>"
      "list_all is_register_call t"
    by (rule reg_frameE)
  from assms(2) obtain h' p' k' t' where
    2: "s'' = s'\<lparr>hw := h', m_parked_pc := p', m_is_parked := k', trace := trace s' @ t'\<rparr>"
      "list_all is_register_call t'"
    by (rule reg_frameE)
  show ?thesis
    by (rule reg_frameI [where h=h' and p=p' and k=k' and t="t @ t'"]) (simp_all add: 1 2)
qed

lemma reg_frame_parked_pc: "reg_frame s (s\<lparr>m_parked_pc := p\<rparr>)"
  by (rule reg_frameI [where h="hw s" and p=p and k="m_is_parked s" and t="[]"]) simp_all

lemma reg_frame_hw:
  "list_all is_register_call t \<Longrightarrow> reg_frame s (s\<lparr>hw := h, trace := trace s @ t\<rparr>)"
  by (rule reg_frameI [where h=h and p="m_parked_pc s" and k="m_is_parked s" and t=t])
    simp_all

lemma reg_frame_is_parked:
  assumes "reg_frame s s'"
  shows "reg_frame s (s'\<lparr>m_is_parked := k\<rparr>)"
proof -
  from assms obtain h p k' t where
    1: "s' = s\<lparr>hw := h, m_parked_pc := p, m_is_parked := k', trace := trace s @ t\<rparr>"
      "list_all is_register_call t"
    by (rule reg_frameE)
  show ?thesis
    by (rule reg_frameI [where h=h and p=p and k=k and t=t]) (simp_all add: 1)
qed

lemma write_register_frame:
  assumes "write_register E regnum offset val s = Inr s'"
  shows "reg_frame s s'"
  using assms
  by (auto simp add: write_register_def Let_def reg_frame_refl reg_frame_parked_pc
      reg_frame_hw split: if_splits sum.splits option.splits)

lemma reg_frame_fields:
  assumes "reg_frame s s'"
  shows "m_id s' = m_id s" "m_state s' = m_state s" "m_visibility s' = m_visibility s"
    "m_stop_reason s' = m_stop_reason s" "m_stop_requested s' = m_stop_requested s"
    "m_last_stopped_pc s' = m_last_stopped_pc s"
    "m_last_stop_event_id s' = m_last_stop_event_id s"
    "m_displaced_stepping s' = m_displaced_stepping s"
    "m_cwsr_record s' = m_cwsr_record s" "m_lane_count s' = m_lane_count s"
    "agent_id s' = agent_id s" "events s' = events s" "next_event_id s' = next_event_id s"
    "agent_exceptions s' = agent_exceptions s" "other_waves s' = other_waves s"
    "waves_changed s' = waves_changed s"
  using assms by (auto elim!: reg_frameE)

lemma reg_frame_trace:
  assumes "reg_frame s s'"
  obtains t where "trace s' = trace s @ t" "list_all is_register_call t"
  using assms by (auto elim!: reg_frameE)

lemma park_frame:
  assumes "park E s = Inr s'"
  shows "reg_frame s s'"
proof -
  from assms obtain real_pc s1 where
    w: "write_register E (regnum_pc (regs E)) 0 (to_bytes 8 (park_instruction_address (proc E)))
          (s\<lparr>m_parked_pc := real_pc\<rparr>) = Inr s1"
    and s': "s' = s1\<lparr>m_is_parked := True\<rparr>"
    by (auto simp add: park_def split: if_splits sum.splits)
  have "reg_frame s s1"
    using reg_frame_parked_pc write_register_frame [OF w] by (rule reg_frame_trans)
  then show ?thesis
    unfolding s' by (rule reg_frame_is_parked)
qed

lemma unpark_frame:
  assumes "unpark E s = Inr s'"
  shows "reg_frame s s'"
proof -
  from assms obtain saved_pc where
    w: "write_register E (regnum_pc (regs E)) 0 (to_bytes 8 saved_pc)
          (s\<lparr>m_is_parked := False\<rparr>) = Inr s'"
    by (auto simp add: unpark_def split: if_splits sum.splits)
  have "reg_frame s (s\<lparr>m_is_parked := False\<rparr>)"
    using reg_frame_refl by (rule reg_frame_is_parked)
  then show ?thesis
    using write_register_frame [OF w] by (rule reg_frame_trans)
qed

lemma park_or_unpark_frame:
  "park_or_unpark E state s = Inr s' \<Longrightarrow> reg_frame s s'"
  by (auto simp add: park_or_unpark_def reg_frame_refl park_frame unpark_frame
      split: if_splits)

lemma write_register_pc:
  assumes "write_register E (regnum_pc (regs E)) 0 bs s = Inr s'"
    and "pc_is_plain E s" and "length bs = 8"
  shows "if m_is_parked s then s' = s\<lparr>m_parked_pc := from_bytes bs\<rparr>
         else \<exists>a t. register_address (m_cwsr_record s) (regnum_pc (regs E)) = Some a
                \<and> trace s' = trace s @ t
                \<and> (Cache_write a bs \<in> set t \<or> Write_global_memory a bs \<in> set t)"
  using assms
  by (auto simp add: write_register_def pc_is_plain_def Let_def
      split: if_splits option.splits)

lemma pc_parked:
  "m_is_parked s \<Longrightarrow> pc_is_plain E s \<Longrightarrow> pc E s = Inr (m_parked_pc s)"
  by (auto simp add: pc_def read_register_def pc_is_plain_def Let_def)

section \<open>The state the client sees\<close>

text \<open>
  Claim C2. For a wave whose state is STOP, \<open>client_visible_state\<close> returns STOP when
  the last stop event is absent or its state is at least \<open>reported\<close>; otherwise it
  returns SINGLE\_STEP when the stop reason has the SINGLE\_STEP bit and RUN when it has
  not. For a wave whose state is not STOP it returns that state. The call never fails.
\<close>

theorem client_visible_state_cases:
  "(m_state s \<noteq> WAVE_STATE_STOP \<longrightarrow> client_visible_state E s = Inr (m_state s)) \<and>
   (m_state s = WAVE_STATE_STOP \<longrightarrow>
      client_visible_state E s =
        Inr (case find (\<lambda>e. event_id e = m_last_stop_event_id s) (events s) of
               None \<Rightarrow> WAVE_STATE_STOP
             | Some ev \<Rightarrow>
                 if state_rank reported \<le> state_rank (event_state ev) then WAVE_STATE_STOP
                 else if m_stop_reason s AND STOP_REASON_SINGLE_STEP (api E) \<noteq> 0
                 then WAVE_STATE_SINGLE_STEP else WAVE_STATE_RUN))"
  by (simp add: client_visible_state_def last_stop_event_def split: option.splits)

theorem client_visible_state_cases_witness:
  "client_visible_state demo_env (demo_wave WAVE_STATE_STOP pending) = Inr WAVE_STATE_RUN \<and>
   client_visible_state demo_env ((demo_wave WAVE_STATE_STOP pending)\<lparr>m_stop_reason := 5\<rparr>)
     = Inr WAVE_STATE_SINGLE_STEP \<and>
   client_visible_state demo_env (demo_wave WAVE_STATE_STOP reported) = Inr WAVE_STATE_STOP \<and>
   client_visible_state demo_env (demo_wave WAVE_STATE_SINGLE_STEP pending)
     = Inr WAVE_STATE_SINGLE_STEP"
  using client_visible_state_cases [of "demo_wave WAVE_STATE_STOP pending" demo_env]
    client_visible_state_cases [of "(demo_wave WAVE_STATE_STOP pending)\<lparr>m_stop_reason := 5\<rparr>" demo_env]
    client_visible_state_cases [of "demo_wave WAVE_STATE_STOP reported" demo_env]
    client_visible_state_cases [of "demo_wave WAVE_STATE_SINGLE_STEP pending" demo_env]
  by (simp add: demo_defs)

section \<open>Visibility\<close>

text \<open>
  Claim C8. A call of \<open>set_visibility\<close> with the visibility the wave already has does
  nothing. A call that moves the wave away from \<open>hidden_halted_at_launch\<close> and returns
  has found the wave running and halted, has called
  \<^verbatim>\<open>architecture.wave_set_halt (wave, false)\<close> on the wave as it was, and only then
  has changed the visibility and marked the wave list as changed; so, when the halt bit
  an architecture reads is the one it has set, the wave leaves that visibility with the
  halt bit clear.
\<close>

theorem set_visibility_unhalts:
  "(m_visibility s = v \<longrightarrow> set_visibility E v s = Inr s) \<and>
   (m_visibility s = hidden_halted_at_launch \<and> v \<noteq> hidden_halted_at_launch
      \<and> set_visibility E v s = Inr s' \<longrightarrow>
      m_state s = WAVE_STATE_RUN \<and> wave_get_halt (arch E) s \<and>
      s' = s\<lparr>hw := wave_set_halt (arch E) s False,
             trace := trace s @ [Wave_set_halt False],
             m_visibility := v, waves_changed := True\<rparr> \<and>
      ((\<forall>t u. hw u = wave_set_halt (arch E) t False \<longrightarrow> \<not> wave_get_halt (arch E) u)
         \<longrightarrow> \<not> wave_get_halt (arch E) s'))"
proof (intro conjI impI)
  assume "m_visibility s = v"
  then show "set_visibility E v s = Inr s"
    by (simp add: set_visibility_def)
next
  assume a: "m_visibility s = hidden_halted_at_launch \<and> v \<noteq> hidden_halted_at_launch
      \<and> set_visibility E v s = Inr s'"
  then have v1: "m_visibility s = hidden_halted_at_launch"
    and v2: "v \<noteq> hidden_halted_at_launch"
    and run: "set_visibility E v s = Inr s'"
    by simp_all
  from run v1 v2 have ok: "m_state s = WAVE_STATE_RUN \<and> wave_get_halt (arch E) s"
    by (auto simp add: set_visibility_def split: if_splits)
  then show "m_state s = WAVE_STATE_RUN" and "wave_get_halt (arch E) s"
    by simp_all
  from run v1 v2 ok show s': "s' = s\<lparr>hw := wave_set_halt (arch E) s False,
             trace := trace s @ [Wave_set_halt False],
             m_visibility := v, waves_changed := True\<rparr>"
    by (auto simp add: set_visibility_def)
  assume "\<forall>t u. hw u = wave_set_halt (arch E) t False \<longrightarrow> \<not> wave_get_halt (arch E) u"
  moreover have "hw s' = wave_set_halt (arch E) s False"
    by (simp add: s')
  ultimately show "\<not> wave_get_halt (arch E) s'"
    by blast
qed

theorem set_visibility_unhalts_witness:
  "set_visibility demo_env hidden_halted_at_launch demo_halted = Inr demo_halted \<and>
   (\<exists>s'. set_visibility demo_env visible demo_halted = Inr s' \<and>
      trace s' = [Wave_set_halt False] \<and> m_visibility s' = visible \<and>
      \<not> wave_get_halt (arch demo_env) s')"
proof -
  have vis: "m_visibility demo_halted = hidden_halted_at_launch"
    by (simp add: demo_halted_def demo_defs)
  have "\<exists>s'. set_visibility demo_env visible demo_halted = Inr s'"
    by (simp add: set_visibility_def demo_halted_def demo_defs)
  then obtain s' where run: "set_visibility demo_env visible demo_halted = Inr s'"
    by blast
  have contract: "\<forall>t u. hw u = wave_set_halt (arch demo_env) t False
      \<longrightarrow> \<not> wave_get_halt (arch demo_env) u"
    by (simp add: demo_defs)
  have tr: "trace demo_halted = []"
    by (simp add: demo_halted_def demo_defs)
  show ?thesis
    using set_visibility_unhalts [of demo_halted hidden_halted_at_launch demo_env]
      set_visibility_unhalts [of demo_halted visible demo_env s'] vis run contract tr
    by simp
qed

section \<open>Resuming a wave\<close>



text \<open>
  Claim C3, as amended. The library is initialized, the wave is found, the resume mode
  and the exceptions are valid, and the state of the wave is STOP. If its last stop
  event exists and is reported but not yet processed, \<open>amd_dbgapi_wave_resume\<close>
  returns WAVE\_NOT\_RESUMABLE and leaves the state as it was (the queue is not
  suspended). If the event exists and is still pending, the call returns
  WAVE\_NOT\_STOPPED, again with the state as it was. If there is no stop event or the
  event is processed, the call returns neither of the two.
\<close>

theorem resume_not_resumable:
  assumes "is_initialized s" and "find_wave s wave_id"
    and "resume_mode = RESUME_MODE_NORMAL \<or> resume_mode = RESUME_MODE_SINGLE_STEP"
    and "exceptions AND NOT (valid_exceptions_mask E) = 0"
    and "m_state s = WAVE_STATE_STOP"
  shows "(\<forall>ev. last_stop_event s = Inr (Some ev) \<and> event_state ev = reported \<longrightarrow>
            amd_dbgapi_wave_resume E wave_id resume_mode exceptions s
              = Inr (ERROR_WAVE_NOT_RESUMABLE, s)) \<and>
         (\<forall>ev. last_stop_event s = Inr (Some ev) \<and> event_state ev = pending \<longrightarrow>
            amd_dbgapi_wave_resume E wave_id resume_mode exceptions s
              = Inr (ERROR_WAVE_NOT_STOPPED, s)) \<and>
         (last_stop_event s = Inr None
            \<or> (\<exists>ev. last_stop_event s = Inr (Some ev) \<and> event_state ev = processed) \<longrightarrow>
            (\<forall>s'. amd_dbgapi_wave_resume E wave_id resume_mode exceptions s
                    \<noteq> Inr (ERROR_WAVE_NOT_RESUMABLE, s')
                 \<and> amd_dbgapi_wave_resume E wave_id resume_mode exceptions s
                    \<noteq> Inr (ERROR_WAVE_NOT_STOPPED, s')))"
proof (intro conjI allI impI)
  fix ev
  assume "last_stop_event s = Inr (Some ev) \<and> event_state ev = reported"
  then show "amd_dbgapi_wave_resume E wave_id resume_mode exceptions s
      = Inr (ERROR_WAVE_NOT_RESUMABLE, s)"
    using assms by (simp add: amd_dbgapi_wave_resume_def client_visible_state_def)
next
  fix ev
  assume "last_stop_event s = Inr (Some ev) \<and> event_state ev = pending"
  then show "amd_dbgapi_wave_resume E wave_id resume_mode exceptions s
      = Inr (ERROR_WAVE_NOT_STOPPED, s)"
    using assms by (simp add: amd_dbgapi_wave_resume_def client_visible_state_def)
next
  fix s'
  assume "last_stop_event s = Inr None
    \<or> (\<exists>ev. last_stop_event s = Inr (Some ev) \<and> event_state ev = processed)"
  then obtain x where x: "last_stop_event s = Inr x"
    "\<not> (case x of None \<Rightarrow> False
         | Some ev \<Rightarrow> state_rank (event_state ev) < state_rank processed)"
    by auto
  then have cvs: "client_visible_state E s = Inr WAVE_STATE_STOP"
    using assms(5) by (cases x) (simp_all add: client_visible_state_def)
  show "amd_dbgapi_wave_resume E wave_id resume_mode exceptions s
      \<noteq> Inr (ERROR_WAVE_NOT_RESUMABLE, s')"
    using assms(1-4) x cvs
    by (simp add: amd_dbgapi_wave_resume_def Let_def split: sum.split)
  show "amd_dbgapi_wave_resume E wave_id resume_mode exceptions s
      \<noteq> Inr (ERROR_WAVE_NOT_STOPPED, s')"
    using assms(1-4) x cvs
    by (simp add: amd_dbgapi_wave_resume_def Let_def split: sum.split)
qed

theorem resume_not_resumable_witness:
  "amd_dbgapi_wave_resume demo_env 1 RESUME_MODE_NORMAL 0 (demo_wave WAVE_STATE_STOP reported)
     = Inr (ERROR_WAVE_NOT_RESUMABLE, demo_wave WAVE_STATE_STOP reported)"
proof -
  have "last_stop_event (demo_wave WAVE_STATE_STOP reported) = Inr (Some (demo_event reported))"
    by (simp add: last_stop_event_def demo_defs)
  moreover have "event_state (demo_event reported) = reported"
    by (simp add: demo_defs)
  moreover have "is_initialized (demo_wave WAVE_STATE_STOP reported)"
    "find_wave (demo_wave WAVE_STATE_STOP reported) 1"
    "(0 :: 32 word) AND NOT (valid_exceptions_mask demo_env) = 0"
    "m_state (demo_wave WAVE_STATE_STOP reported) = WAVE_STATE_STOP"
    by (simp_all add: find_wave_def demo_defs)
  ultimately show ?thesis
    using resume_not_resumable [of "demo_wave WAVE_STATE_STOP reported" 1 RESUME_MODE_NORMAL 0 demo_env]
    by blast
qed

text \<open>
  Claim C3 as stated fails: a stopped wave whose stop event exists and is still pending
  (so not yet processed) gets WAVE\_NOT\_STOPPED, not WAVE\_NOT\_RESUMABLE.
\<close>

theorem resume_pending_counterexample:
  "m_state (demo_wave WAVE_STATE_STOP pending) = WAVE_STATE_STOP \<and>
   last_stop_event (demo_wave WAVE_STATE_STOP pending) = Inr (Some (demo_event pending)) \<and>
   state_rank (event_state (demo_event pending)) < state_rank processed \<and>
   amd_dbgapi_wave_resume demo_env 1 RESUME_MODE_NORMAL 0 (demo_wave WAVE_STATE_STOP pending)
     = Inr (ERROR_WAVE_NOT_STOPPED, demo_wave WAVE_STATE_STOP pending)"
  by (simp add: amd_dbgapi_wave_resume_def client_visible_state_def last_stop_event_def
      find_wave_def valid_exceptions_mask_def demo_defs)




section \<open>Parking\<close>

text \<open>
  Claim C7. For a parked wave whose pc is a plain register, writing a value to the pc
  changes \<open>m_parked_pc\<close> and nothing else (the register cache, the memory and the trace
  of calls are as before), and reading the pc afterwards yields the value written; this
  holds for the eight bytes of any value. \<open>park\<close>, when it returns, was called on a
  wave that was not parked, has saved the pc it read into \<open>m_parked_pc\<close>, has written
  the park instruction address to the pc register of the context save area (through the
  register cache or the global memory), and has set \<open>m_is_parked\<close>.
\<close>

theorem parked_pc_coherence:
  "(m_is_parked s \<and> pc_is_plain E s \<longrightarrow>
      write_register E (regnum_pc (regs E)) 0 (to_bytes 8 v) s = Inr (s\<lparr>m_parked_pc := v\<rparr>)
      \<and> pc E (s\<lparr>m_parked_pc := v\<rparr>) = Inr v
      \<and> (length bs = 8 \<longrightarrow>
           write_register E (regnum_pc (regs E)) 0 bs s
             = Inr (s\<lparr>m_parked_pc := from_bytes bs\<rparr>)
           \<and> read_register E (s\<lparr>m_parked_pc := from_bytes bs\<rparr>) (regnum_pc (regs E)) 0 8
             = Inr bs)) \<and>
   (pc_is_plain E s \<and> park E s = Inr s' \<longrightarrow>
      (\<exists>real_pc a.
         \<not> m_is_parked s \<and> pc E s = Inr real_pc
         \<and> register_address (m_cwsr_record s) (regnum_pc (regs E)) = Some a
         \<and> m_parked_pc s' = real_pc \<and> m_is_parked s'
         \<and> (trace s' = trace s
               @ [Cache_write a (to_bytes 8 (park_instruction_address (proc E)))]
             \<or> trace s' = trace s
               @ [Cache_write a (to_bytes 8 (park_instruction_address (proc E))),
                  Register_dirty_cache]
             \<or> trace s' = trace s
               @ [Write_global_memory a (to_bytes 8 (park_instruction_address (proc E)))])))"
proof (intro conjI impI)
  assume a: "m_is_parked s \<and> pc_is_plain E s"
  then show "write_register E (regnum_pc (regs E)) 0 (to_bytes 8 v) s
      = Inr (s\<lparr>m_parked_pc := v\<rparr>)"
    by (auto simp add: write_register_def pc_is_plain_def Let_def)
  from a show "pc E (s\<lparr>m_parked_pc := v\<rparr>) = Inr v"
    by (auto simp add: pc_def read_register_def pc_is_plain_def Let_def)
  assume l: "length bs = 8"
  with a show "write_register E (regnum_pc (regs E)) 0 bs s
      = Inr (s\<lparr>m_parked_pc := from_bytes bs\<rparr>)"
    by (auto simp add: write_register_def pc_is_plain_def Let_def)
  from a l show "read_register E (s\<lparr>m_parked_pc := from_bytes bs\<rparr>) (regnum_pc (regs E)) 0 8
      = Inr bs"
    by (auto simp add: read_register_def pc_is_plain_def Let_def to_bytes_from_bytes)
next
  assume a: "pc_is_plain E s \<and> park E s = Inr s'"
  then have plain: "pc_is_plain E s" and run: "park E s = Inr s'"
    by simp_all
  from run have np: "\<not> m_is_parked s"
    by (auto simp add: park_def split: if_splits)
  from run obtain real_pc s1 where
    rd: "pc E s = Inr real_pc"
    and w: "write_register E (regnum_pc (regs E)) 0
          (to_bytes 8 (park_instruction_address (proc E)))
          (s\<lparr>m_parked_pc := real_pc\<rparr>) = Inr s1"
    and s': "s' = s1\<lparr>m_is_parked := True\<rparr>"
    by (auto simp add: park_def split: if_splits sum.splits)
  from plain obtain a where addr: "register_address (m_cwsr_record s) (regnum_pc (regs E)) = Some a"
    by (auto simp add: pc_is_plain_def)
  let ?pb = "to_bytes 8 (park_instruction_address (proc E))"
  from w plain np addr have
    "m_parked_pc s1 = real_pc \<and>
     (trace s1 = trace s @ [Cache_write a ?pb]
      \<or> trace s1 = trace s @ [Cache_write a ?pb, Register_dirty_cache]
      \<or> trace s1 = trace s @ [Write_global_memory a ?pb])"
    by (auto simp add: write_register_def pc_is_plain_def Let_def
        split: if_splits option.splits)
  with np rd addr s' show "\<exists>real_pc a.
         \<not> m_is_parked s \<and> pc E s = Inr real_pc
         \<and> register_address (m_cwsr_record s) (regnum_pc (regs E)) = Some a
         \<and> m_parked_pc s' = real_pc \<and> m_is_parked s'
         \<and> (trace s' = trace s @ [Cache_write a ?pb]
             \<or> trace s' = trace s @ [Cache_write a ?pb, Register_dirty_cache]
             \<or> trace s' = trace s @ [Write_global_memory a ?pb])"
    by simp
qed

theorem parked_pc_coherence_witness:
  "write_register demo_env (regnum_pc (regs demo_env)) 0 (to_bytes 8 12544)
      (demo_wave WAVE_STATE_STOP processed)
     = Inr ((demo_wave WAVE_STATE_STOP processed)\<lparr>m_parked_pc := 12544\<rparr>) \<and>
   pc demo_env ((demo_wave WAVE_STATE_STOP processed)\<lparr>m_parked_pc := 12544\<rparr>) = Inr 12544 \<and>
   (\<exists>s'. park demo_env ((demo_wave WAVE_STATE_STOP processed)\<lparr>m_is_parked := False\<rparr>) = Inr s'
      \<and> m_is_parked s' \<and> m_parked_pc s' = 0
      \<and> trace s' = [Cache_write 800 (to_bytes 8 4096), Register_dirty_cache])"
proof -
  let ?s = "demo_wave WAVE_STATE_STOP processed"
  let ?u = "?s\<lparr>m_is_parked := False\<rparr>"
  have 1: "m_is_parked ?s \<and> pc_is_plain demo_env ?s"
    by (simp add: pc_is_plain_def in_range_def demo_defs)
  have 2: "pc_is_plain demo_env ?u"
    by (simp add: pc_is_plain_def in_range_def demo_defs)
  have "\<exists>s'. park demo_env ?u = Inr s'"
    by (simp add: park_def pc_def read_register_def write_register_def in_range_def
        Let_def demo_defs)
  then obtain s' where 3: "park demo_env ?u = Inr s'"
    by blast
  have 4: "pc demo_env ?u = Inr 0"
    by (simp add: pc_def read_register_def in_range_def Let_def demo_defs)
  have 5: "register_address (m_cwsr_record ?u) (regnum_pc (regs demo_env)) = Some 800"
    "cache_contains (proc demo_env) h a n" "cache_is_dirty (proc demo_env) h"
    "park_instruction_address (proc demo_env) = 4096" "trace ?u = []" for h a n
    by (simp_all add: demo_defs)
  from parked_pc_coherence [of ?s demo_env 12544 "[]"] 1
  have a: "write_register demo_env (regnum_pc (regs demo_env)) 0 (to_bytes 8 12544) ?s
     = Inr (?s\<lparr>m_parked_pc := 12544\<rparr>)"
    and b: "pc demo_env (?s\<lparr>m_parked_pc := 12544\<rparr>) = Inr 12544"
    by blast+
  from parked_pc_coherence [of ?u demo_env 0 "[]" s'] 2 3 4 5
  have c: "m_is_parked s' \<and> m_parked_pc s' = 0"
    by auto
  have d: "trace s' = [Cache_write 800 (to_bytes 8 4096), Register_dirty_cache]"
    using 3 by (auto simp add: park_def pc_def read_register_def write_register_def in_range_def
        Let_def demo_defs)
  from a b c d 3 show ?thesis
    by blast
qed

section \<open>Changing the state of a wave\<close>

lemma set_state_commitE:
  assumes "set_state_commit E state exceptions prev_state instruction s = Inr s'"
  obtains s3 s4 s5 s6 where
    "park_or_unpark E state
       (s\<lparr>hw := wave_set_state (arch E) s state exceptions,
          trace := trace s @ [Wave_set_state state exceptions], m_state := state\<rparr>) = Inr s3"
    "leave_or_enter_stop E state prev_state s3 = Inr s4"
    "simulate_step E state exceptions instruction s4 = Inr s5"
    "send_exceptions_step E exceptions s5 = Inr s6"
    "s' = clear_device_memory_violation E state s6"
  using assms by (auto simp add: set_state_commit_def Let_def split: sum.splits)

lemma set_state_change:
  assumes "set_state E state exceptions s = Inr s'" and "m_state s \<noteq> state"
  shows "(exceptions = 0 \<or> state \<noteq> WAVE_STATE_STOP)
    \<and> (m_displaced_stepping s = None \<or> state \<noteq> WAVE_STATE_RUN)
    \<and> (\<exists>instruction.
          (if state = WAVE_STATE_SINGLE_STEP
           then instruction_at_pc E (s\<lparr>m_stop_requested := (state = WAVE_STATE_STOP)\<rparr>) 0
           else Inr None) = Inr instruction
          \<and> (if state = WAVE_STATE_SINGLE_STEP \<and> exceptions = 0
                 \<and> is_terminating_step E
                      (s\<lparr>m_stop_requested := (state = WAVE_STATE_STOP)\<rparr>) instruction
              then \<exists>s2. terminate E (s\<lparr>m_stop_requested := (state = WAVE_STATE_STOP)\<rparr>)
                           = Inr s2
                     \<and> s' = raise_event EVENT_KIND_WAVE_COMMAND_TERMINATED s2
              else set_state_commit E state exceptions (m_state s) instruction
                     (s\<lparr>m_stop_requested := (state = WAVE_STATE_STOP)\<rparr>) = Inr s'))"
proof -
  from assms have a: "exceptions = 0 \<or> state \<noteq> WAVE_STATE_STOP"
    by (subst (asm) set_state.simps) (auto split: if_splits)
  from assms a have b: "m_displaced_stepping s = None \<or> state \<noteq> WAVE_STATE_RUN"
    by (subst (asm) set_state.simps) (auto simp add: Let_def split: if_splits)
  from assms a b obtain instruction where c:
    "(if state = WAVE_STATE_SINGLE_STEP
      then instruction_at_pc E (s\<lparr>m_stop_requested := (state = WAVE_STATE_STOP)\<rparr>) 0
      else Inr None) = Inr instruction"
    by (subst (asm) set_state.simps) (auto simp add: Let_def split: if_splits sum.splits)
  from assms a b c have d: "if state = WAVE_STATE_SINGLE_STEP \<and> exceptions = 0
        \<and> is_terminating_step E (s\<lparr>m_stop_requested := (state = WAVE_STATE_STOP)\<rparr>) instruction
     then \<exists>s2. terminate E (s\<lparr>m_stop_requested := (state = WAVE_STATE_STOP)\<rparr>) = Inr s2
            \<and> s' = raise_event EVENT_KIND_WAVE_COMMAND_TERMINATED s2
     else set_state_commit E state exceptions (m_state s) instruction
            (s\<lparr>m_stop_requested := (state = WAVE_STATE_STOP)\<rparr>) = Inr s'"
    by (subst (asm) set_state.simps) (auto simp add: Let_def split: if_splits sum.splits)
  from a b c d show ?thesis
    by blast
qed

lemma simulate_step_skip:
  "state \<noteq> WAVE_STATE_SINGLE_STEP \<or> exceptions \<noteq> 0
    \<Longrightarrow> simulate_step E state exceptions instruction s = Inr s"
  by (auto simp add: simulate_step_def)

lemma send_exceptions_step_none: "send_exceptions_step E 0 s = Inr s"
  by (simp add: send_exceptions_step_def)

lemma clear_device_memory_violation_stop:
  "clear_device_memory_violation E WAVE_STATE_STOP s = s"
  by (simp add: clear_device_memory_violation_def)

lemma convert_exceptions_agent:
  "agent_exceptions s = agent_exceptions t
    \<Longrightarrow> convert_exceptions E s e os = convert_exceptions E t e os"
proof (induction E s e os rule: convert_exceptions.induct)
  case (1 E s exceptions os_exceptions)
  have one: "convert_one_exception E s x = convert_one_exception E t x" for x
    using "1.prems" by (simp add: convert_one_exception_def)
  show ?case
  proof (cases "exceptions = 0")
    case True
    then show ?thesis
      by (simp add: convert_exceptions.simps)
  next
    case False
    show ?thesis
    proof (cases "convert_one_exception E s (exceptions XOR (exceptions AND (exceptions - 1)))")
      case (Inl e)
      then show ?thesis
        using False one by (subst (1 2) convert_exceptions.simps) (simp add: Let_def)
    next
      case (Inr m)
      have "convert_exceptions E s
              (exceptions XOR (exceptions XOR (exceptions AND (exceptions - 1))))
              (os_exceptions OR m)
          = convert_exceptions E t
              (exceptions XOR (exceptions XOR (exceptions AND (exceptions - 1))))
              (os_exceptions OR m)"
        using "1.IH" [OF False refl Inr "1.prems"] .
      then show ?thesis
        using False one Inr
        by (subst (1 2) convert_exceptions.simps) (simp add: Let_def)
    qed
  qed
qed

lemma send_exceptions_step_some:
  assumes "send_exceptions_step E exceptions s = Inr s'" and "exceptions \<noteq> 0"
  shows "\<exists>os. convert_exceptions E s exceptions 0 = Inr os
    \<and> os AND os_queue_exception_mask (api E) \<noteq> 0
    \<and> s' = s\<lparr>trace := trace s @ [Send_exceptions os]\<rparr>"
  using assms by (auto simp add: send_exceptions_step_def split: sum.splits if_splits)

lemma clear_device_memory_violation_trace:
  "trace (clear_device_memory_violation E state s) = trace s
   \<or> trace (clear_device_memory_violation E state s)
      = trace s @ [Clear_exceptions (device_memory_violation (api E))]"
  by (simp add: clear_device_memory_violation_def)

lemma clear_device_memory_violation_fields:
  "m_state (clear_device_memory_violation E state s) = m_state s"
  "m_visibility (clear_device_memory_violation E state s) = m_visibility s"
  "m_stop_reason (clear_device_memory_violation E state s) = m_stop_reason s"
  "m_stop_requested (clear_device_memory_violation E state s) = m_stop_requested s"
  "m_displaced_stepping (clear_device_memory_violation E state s) = m_displaced_stepping s"
  "m_id (clear_device_memory_violation E state s) = m_id s"
  "events (clear_device_memory_violation E state s) = events s"
  "next_event_id (clear_device_memory_violation E state s) = next_event_id s"
  "m_last_stop_event_id (clear_device_memory_violation E state s) = m_last_stop_event_id s"
  by (simp_all add: clear_device_memory_violation_def)

lemma set_visibility_not_running:
  assumes "set_visibility E v s = Inr s'" and "m_state s \<noteq> WAVE_STATE_RUN"
  shows "s' = s\<lparr>m_visibility := v,
                waves_changed := (if m_visibility s = v then waves_changed s else True)\<rparr>"
  using assms by (auto simp add: set_visibility_def split: if_splits)

lemma terminate_stopped:
  assumes "terminate E s = Inr s'" and "m_state s = WAVE_STATE_STOP"
  shows "m_state s' = WAVE_STATE_RUN
    \<and> m_visibility s' = hidden_at_terminating_instruction
    \<and> m_displaced_stepping s' = None \<and> m_stop_reason s' = 0 \<and> \<not> m_stop_requested s'
    \<and> events s' = events s \<and> next_event_id s' = next_event_id s \<and> m_id s' = m_id s
    \<and> (\<exists>t1 t2 clr.
          list_all is_register_call t1 \<and> list_all is_register_call t2
          \<and> (clr = [] \<or> clr = [Clear_exceptions (device_memory_violation (api E))])
          \<and> trace s' = trace s
               @ (case m_displaced_stepping s of None \<Rightarrow> []
                  | Some ds \<Rightarrow> [Release_displaced_stepping (ds_id ds)])
               @ t1 @ [Wave_set_state WAVE_STATE_RUN 0] @ t2 @ clr
          \<and> (pc_is_plain E s \<and> (m_is_parked s \<longrightarrow> park_stopped_waves (arch E)) \<longrightarrow>
               (\<exists>a. register_address (m_cwsr_record s) (regnum_pc (regs E)) = Some a
                  \<and> (Cache_write a (to_bytes 8 (terminating_instruction_address (proc E)))
                        \<in> set (t1 @ t2)
                      \<or> Write_global_memory a
                          (to_bytes 8 (terminating_instruction_address (proc E)))
                        \<in> set (t1 @ t2)))))"
proof -
  let ?r = "release_displaced_stepping s"
  let ?rel = "case m_displaced_stepping s of None \<Rightarrow> []
              | Some ds \<Rightarrow> [Release_displaced_stepping (ds_id ds)]"
  let ?ta = "terminating_instruction_address (proc E)"
  let ?tb = "to_bytes 8 ?ta"
  let ?pc = "regnum_pc (regs E)"
  from assms(1) obtain w v where
    w: "write_register E ?pc 0 ?tb ?r = Inr w"
    and v: "set_visibility E hidden_at_terminating_instruction w = Inr v"
    and run: "set_state E WAVE_STATE_RUN 0 v = Inr s'"
    by (subst (asm) terminate.simps) (auto simp add: Let_def split: sum.splits)
  have r: "m_state ?r = WAVE_STATE_STOP" "m_displaced_stepping ?r = None"
    "trace ?r = trace s @ ?rel" "events ?r = events s" "next_event_id ?r = next_event_id s"
    "m_id ?r = m_id s" "m_cwsr_record ?r = m_cwsr_record s" "m_is_parked ?r = m_is_parked s"
    using assms(2) by (simp_all add: release_displaced_stepping_def split: option.splits)
  from write_register_frame [OF w] obtain h1 p1 k1 t1 where
    w_eq: "w = ?r\<lparr>hw := h1, m_parked_pc := p1, m_is_parked := k1, trace := trace ?r @ t1\<rparr>"
    and t1: "list_all is_register_call t1"
    by (rule reg_frameE)
  have "m_state w \<noteq> WAVE_STATE_RUN"
    by (simp add: w_eq r)
  with v have v_eq: "v = w\<lparr>m_visibility := hidden_at_terminating_instruction,
      waves_changed := (if m_visibility w = hidden_at_terminating_instruction
                        then waves_changed w else True)\<rparr>"
    by (rule set_visibility_not_running)
  have vs: "m_state v \<noteq> WAVE_STATE_RUN"
    by (simp add: v_eq w_eq r)
  let ?v1 = "v\<lparr>m_stop_requested := False\<rparr>"
  from set_state_change [OF run vs]
  have commit: "set_state_commit E WAVE_STATE_RUN 0 (m_state v) None ?v1 = Inr s'"
    by auto
  let ?c2 = "?v1\<lparr>hw := wave_set_state (arch E) ?v1 WAVE_STATE_RUN 0,
          trace := trace ?v1 @ [Wave_set_state WAVE_STATE_RUN 0], m_state := WAVE_STATE_RUN\<rparr>"
  from commit obtain c3 c4 c5 c6 where
    p: "park_or_unpark E WAVE_STATE_RUN ?c2 = Inr c3"
    and l: "leave_or_enter_stop E WAVE_STATE_RUN (m_state v) c3 = Inr c4"
    and sim: "simulate_step E WAVE_STATE_RUN 0 None c4 = Inr c5"
    and snd: "send_exceptions_step E 0 c5 = Inr c6"
    and s': "s' = clear_device_memory_violation E WAVE_STATE_RUN c6"
    by (rule set_state_commitE)
  from park_or_unpark_frame [OF p] obtain h2 p2 k2 t2 where
    c3_eq: "c3 = ?c2\<lparr>hw := h2, m_parked_pc := p2, m_is_parked := k2, trace := trace ?c2 @ t2\<rparr>"
    and t2: "list_all is_register_call t2"
    by (rule reg_frameE)
  from l obtain q where c4_eq: "c4 = c3\<lparr>m_last_stopped_pc := q, m_stop_reason := 0\<rparr>"
    by (auto simp add: leave_or_enter_stop_def split: if_splits sum.splits)
  from sim snd have c6_eq: "c6 = c4"
    by (simp add: simulate_step_skip send_exceptions_step_none)
  have tr4: "trace c4 = trace s @ ?rel @ t1 @ [Wave_set_state WAVE_STATE_RUN 0] @ t2"
    by (simp add: c4_eq c3_eq v_eq w_eq r)
  from clear_device_memory_violation_trace [of E WAVE_STATE_RUN c6]
  obtain clr where clr: "clr = [] \<or> clr = [Clear_exceptions (device_memory_violation (api E))]"
    and tr: "trace s' = trace c4 @ clr"
    unfolding s' c6_eq by auto
  have fields: "m_state s' = WAVE_STATE_RUN"
    "m_visibility s' = hidden_at_terminating_instruction"
    "m_displaced_stepping s' = None" "m_stop_reason s' = 0" "\<not> m_stop_requested s'"
    "events s' = events s" "next_event_id s' = next_event_id s" "m_id s' = m_id s"
    unfolding s' c6_eq
    by (simp_all add: clear_device_memory_violation_fields c4_eq c3_eq v_eq w_eq r)
  have pcw: "\<exists>a. register_address (m_cwsr_record s) ?pc = Some a
      \<and> (Cache_write a ?tb \<in> set (t1 @ t2) \<or> Write_global_memory a ?tb \<in> set (t1 @ t2))"
    if plain: "pc_is_plain E s" and cons: "m_is_parked s \<longrightarrow> park_stopped_waves (arch E)"
  proof -
    have plain_r: "pc_is_plain E ?r"
      using plain by (simp add: pc_is_plain_def r)
    show ?thesis
    proof (cases "m_is_parked s")
      case False
      with write_register_pc [OF w plain_r] obtain a t where
        a: "register_address (m_cwsr_record s) ?pc = Some a"
        and t: "trace w = trace ?r @ t"
        and m: "Cache_write a ?tb \<in> set t \<or> Write_global_memory a ?tb \<in> set t"
        by (auto simp add: r)
      from t have "t = t1"
        by (simp add: w_eq)
      with a m show ?thesis
        by auto
    next
      case True
      with write_register_pc [OF w plain_r] have w_parked: "w = ?r\<lparr>m_parked_pc := ?ta\<rparr>"
        by (simp add: r)
      have parked2: "m_is_parked ?c2" "m_parked_pc ?c2 = ?ta" "pc_is_plain E ?c2"
        "m_cwsr_record ?c2 = m_cwsr_record s" "m_state ?c2 = WAVE_STATE_RUN"
        using True plain by (simp_all add: pc_is_plain_def v_eq w_parked r)
      have pc2: "pc E ?c2 = Inr ?ta"
        using pc_parked [OF parked2(1) parked2(3)] parked2(2) by simp
      from p True cons have "unpark E ?c2 = Inr c3"
        by (simp add: park_or_unpark_def)
      then have w2: "write_register E ?pc 0 ?tb (?c2\<lparr>m_is_parked := False\<rparr>) = Inr c3"
        unfolding unpark_def using pc2 parked2(1) parked2(5) by simp
      have "pc_is_plain E (?c2\<lparr>m_is_parked := False\<rparr>)"
        using parked2(3) by (simp add: pc_is_plain_def)
      from write_register_pc [OF w2 this] obtain a t where
        a: "register_address (m_cwsr_record s) ?pc = Some a"
        and t: "trace c3 = trace ?c2 @ t"
        and m: "Cache_write a ?tb \<in> set t \<or> Write_global_memory a ?tb \<in> set t"
        using parked2(4) by auto
      from t have "t = t2"
        by (simp add: c3_eq)
      with a m show ?thesis
        by auto
    qed
  qed
  from fields t1 t2 clr tr tr4 pcw show ?thesis
    by (intro conjI exI [of _ t1] exI [of _ t2] exI [of _ clr]) simp_all
qed

lemma register_calls_no_wave_set_state:
  "list_all is_register_call t \<Longrightarrow> Wave_set_state a b \<notin> set t"
  by (auto simp add: list_all_iff)

text \<open>
  Claim C9. When \<open>set_state\<close> moves a wave that is not stopped into STOP and returns,
  no exceptions were given, the wave is stopped with \<open>stop_requested\<close> set, and the
  event (WAVE\_COMMAND\_TERMINATED when the wave was single-stepping, WAVE\_STOP
  otherwise) was raised on a state whose stop reason had just been set to NONE: the
  final state is that state with the new, pending event appended, so the stop reason
  is NONE when the stop can be observed.
\<close>

theorem set_state_stop_acknowledged:
  assumes "m_state s \<noteq> WAVE_STATE_STOP"
    and "set_state E WAVE_STATE_STOP exceptions s = Inr s'"
  shows "exceptions = 0 \<and> m_state s' = WAVE_STATE_STOP \<and> m_stop_reason s' = 0
    \<and> m_stop_requested s'
    \<and> (\<exists>s1. m_visibility s1 = visible \<and>
          s' = raise_event (if m_state s = WAVE_STATE_SINGLE_STEP
                            then EVENT_KIND_WAVE_COMMAND_TERMINATED
                            else EVENT_KIND_WAVE_STOP) (s1\<lparr>m_stop_reason := 0\<rparr>))
    \<and> events s' = events s
        @ [\<lparr>event_id = next_event_id s,
            event_kind = (if m_state s = WAVE_STATE_SINGLE_STEP
                          then EVENT_KIND_WAVE_COMMAND_TERMINATED
                          else EVENT_KIND_WAVE_STOP),
            event_wave_id = m_id s, event_state = pending\<rparr>]
    \<and> m_last_stop_event_id s' = next_event_id s"
proof -
  let ?kind = "if m_state s = WAVE_STATE_SINGLE_STEP
               then EVENT_KIND_WAVE_COMMAND_TERMINATED else EVENT_KIND_WAVE_STOP"
  let ?s1 = "s\<lparr>m_stop_requested := True\<rparr>"
  from set_state_change [OF assms(2) assms(1)] obtain instruction where
    exc: "exceptions = 0"
    and commit: "set_state_commit E WAVE_STATE_STOP exceptions (m_state s) instruction ?s1
      = Inr s'"
    by auto
  let ?s2 = "?s1\<lparr>hw := wave_set_state (arch E) ?s1 WAVE_STATE_STOP exceptions,
          trace := trace ?s1 @ [Wave_set_state WAVE_STATE_STOP exceptions],
          m_state := WAVE_STATE_STOP\<rparr>"
  from commit obtain s3 s4 s5 s6 where
    p: "park_or_unpark E WAVE_STATE_STOP ?s2 = Inr s3"
    and l: "leave_or_enter_stop E WAVE_STATE_STOP (m_state s) s3 = Inr s4"
    and sim: "simulate_step E WAVE_STATE_STOP exceptions instruction s4 = Inr s5"
    and snd: "send_exceptions_step E exceptions s5 = Inr s6"
    and s': "s' = clear_device_memory_violation E WAVE_STATE_STOP s6"
    by (rule set_state_commitE)
  from sim snd s' exc have s'4: "s' = s4"
    by (simp add: simulate_step_skip send_exceptions_step_none
        clear_device_memory_violation_stop)
  have f: "reg_frame ?s2 s3"
    using p by (rule park_or_unpark_frame)
  from l assms(1) have vis: "m_visibility s3 = visible"
    and s4: "s4 = raise_event ?kind (s3\<lparr>m_stop_reason := 0\<rparr>)"
    by (auto simp add: leave_or_enter_stop_def Let_def split: if_splits)
  have fields: "m_state s3 = WAVE_STATE_STOP" "m_stop_requested s3" "events s3 = events s"
    "next_event_id s3 = next_event_id s" "m_id s3 = m_id s"
    using reg_frame_fields [OF f] by simp_all
  show ?thesis
    using exc vis fields
    unfolding s'4 s4
    by (auto simp add: raise_event_def Let_def intro: exI [of _ s3])
qed

theorem set_state_stop_acknowledged_witness:
  "\<exists>s'. set_state demo_env WAVE_STATE_STOP 0 (demo_wave WAVE_STATE_SINGLE_STEP processed) = Inr s'
     \<and> m_state s' = WAVE_STATE_STOP \<and> m_stop_reason s' = 0
     \<and> events s' = [demo_event processed,
          \<lparr>event_id = 8, event_kind = EVENT_KIND_WAVE_COMMAND_TERMINATED,
           event_wave_id = 1, event_state = pending\<rparr>]"
proof -
  let ?s = "demo_wave WAVE_STATE_SINGLE_STEP processed"
  have "\<exists>s'. set_state demo_env WAVE_STATE_STOP 0 ?s = Inr s'"
    by (simp add: set_state.simps eval_defs demo_defs)
  then obtain s' where run: "set_state demo_env WAVE_STATE_STOP 0 ?s = Inr s'"
    by blast
  have st: "m_state ?s \<noteq> WAVE_STATE_STOP" "m_state ?s = WAVE_STATE_SINGLE_STEP"
    by (simp_all add: demo_defs)
  have facts: "events ?s = [demo_event processed]" "next_event_id ?s = 8" "m_id ?s = 1"
    by (simp_all add: demo_defs)
  from set_state_stop_acknowledged [OF st(1) run] facts st(2) run
  show ?thesis
    by auto
qed

lemma register_calls_no_send_exceptions:
  "list_all is_register_call t \<Longrightarrow> Send_exceptions os \<notin> set t"
  by (auto simp add: list_all_iff)

lemma leave_or_enter_stop_trace:
  "leave_or_enter_stop E state prev_state s = Inr s' \<Longrightarrow> trace s' = trace s"
  by (auto simp add: leave_or_enter_stop_def raise_event_def Let_def
      split: if_splits sum.splits)

lemma simulate_instruction_trace:
  assumes "simulate_instruction E s instruction = Inr (simulated, s')"
  shows "\<exists>t. trace s' = trace s @ t \<and> (\<forall>os. Send_exceptions os \<notin> set t)"
  using assms
  by (auto simp add: simulate_instruction_def
      split: option.splits if_splits sum.splits prod.splits)

lemma simulate_step_trace:
  assumes "simulate_step E state exceptions instruction s = Inr s'"
  shows "\<exists>t. trace s' = trace s @ t \<and> (\<forall>os. Send_exceptions os \<notin> set t)"
proof (cases "state = WAVE_STATE_SINGLE_STEP \<and> exceptions = 0")
  case False
  with assms have "s' = s"
    by (auto simp add: simulate_step_def)
  then show ?thesis
    by simp
next
  case True
  with assms obtain simulated s1 where
    i: "simulate_instruction E s instruction = Inr (simulated, s1)"
    by (auto simp add: simulate_step_def split: sum.splits)
  from simulate_instruction_trace [OF i] obtain t1 where
    t1: "trace s1 = trace s @ t1" "\<forall>os. Send_exceptions os \<notin> set t1"
    by blast
  show ?thesis
  proof (cases simulated)
    case False
    with assms True i have "s' = s1"
      by (simp add: simulate_step_def)
    with t1 show ?thesis
      by blast
  next
    case simulated: True
    obtain st sr where g: "wave_get_state (arch E) s1 = (st, sr)"
      by (cases "wave_get_state (arch E) s1") auto
    let ?s1 = "s1\<lparr>m_state := st, m_stop_reason := sr\<rparr>"
    from assms True i simulated g obtain s2 where
      p: "(if park_stopped_waves (arch E) then park E ?s1 else Inr ?s1) = Inr s2"
      and s': "s' = raise_event EVENT_KIND_WAVE_STOP s2"
      by (auto simp add: simulate_step_def split: sum.splits)
    have "reg_frame ?s1 s2"
      using p by (auto simp add: park_frame reg_frame_refl split: if_splits)
    then obtain t2 where t2: "trace s2 = trace ?s1 @ t2" "list_all is_register_call t2"
      by (rule reg_frame_trace)
    have "trace s' = trace s @ (t1 @ t2)"
      by (simp add: s' raise_event_def Let_def t2 t1)
    moreover have "\<forall>os. Send_exceptions os \<notin> set (t1 @ t2)"
      using t1(2) register_calls_no_send_exceptions [OF t2(2)] by simp
    ultimately show ?thesis
      by blast
  qed
qed

lemma set_state_commit_trace:
  assumes "set_state_commit E state exceptions prev_state instruction s = Inr s'"
  shows "\<exists>t. trace s' = trace s @ t
    \<and> (exceptions = 0 \<longrightarrow> (\<forall>os. Send_exceptions os \<notin> set t))"
proof -
  let ?s2 = "s\<lparr>hw := wave_set_state (arch E) s state exceptions,
          trace := trace s @ [Wave_set_state state exceptions], m_state := state\<rparr>"
  from assms obtain s3 s4 s5 s6 where
    p: "park_or_unpark E state ?s2 = Inr s3"
    and l: "leave_or_enter_stop E state prev_state s3 = Inr s4"
    and sim: "simulate_step E state exceptions instruction s4 = Inr s5"
    and snd: "send_exceptions_step E exceptions s5 = Inr s6"
    and s': "s' = clear_device_memory_violation E state s6"
    by (rule set_state_commitE)
  from park_or_unpark_frame [OF p] obtain t1 where
    t1: "trace s3 = trace ?s2 @ t1" "list_all is_register_call t1"
    by (rule reg_frame_trace)
  note t2 = leave_or_enter_stop_trace [OF l]
  from simulate_step_trace [OF sim] obtain t3 where
    t3: "trace s5 = trace s4 @ t3" "\<forall>os. Send_exceptions os \<notin> set t3"
    by blast
  from snd obtain t4 where
    t4: "trace s6 = trace s5 @ t4" "exceptions = 0 \<longrightarrow> t4 = []"
    by (auto simp add: send_exceptions_step_def split: if_splits sum.splits)
  from clear_device_memory_violation_trace [of E state s6] obtain t5 where
    t5: "trace s' = trace s6 @ t5"
      "t5 = [] \<or> t5 = [Clear_exceptions (device_memory_violation (api E))]"
    unfolding s' by auto
  have "trace s' = trace s @ ([Wave_set_state state exceptions] @ t1 @ t3 @ t4 @ t5)"
    by (simp add: t5 t4 t3 t2 t1)
  moreover have "exceptions = 0 \<longrightarrow>
      (\<forall>os. Send_exceptions os \<notin> set ([Wave_set_state state exceptions] @ t1 @ t3 @ t4 @ t5))"
    using register_calls_no_send_exceptions [OF t1(2)] t3(2) t4(2) t5(2) by auto
  ultimately show ?thesis
    by blast
qed

lemma set_visibility_trace:
  assumes "set_visibility E v s = Inr s'"
  shows "\<exists>t. trace s' = trace s @ t \<and> (\<forall>os. Send_exceptions os \<notin> set t)"
  using assms by (auto simp add: set_visibility_def split: if_splits)

lemma set_state_no_step_trace:
  assumes "set_state E state 0 s = Inr s'" and "state \<noteq> WAVE_STATE_SINGLE_STEP"
  shows "\<exists>t. trace s' = trace s @ t \<and> (\<forall>os. Send_exceptions os \<notin> set t)"
proof (cases "m_state s = state")
  case True
  with assms(1) have "s' = s"
    by (subst (asm) set_state.simps) (simp add: Let_def)
  then show ?thesis
    by simp
next
  case False
  let ?s1 = "s\<lparr>m_stop_requested := (state = WAVE_STATE_STOP)\<rparr>"
  from set_state_change [OF assms(1) False] assms(2) obtain instruction where
    "set_state_commit E state 0 (m_state s) instruction ?s1 = Inr s'"
    by auto
  from set_state_commit_trace [OF this] show ?thesis
    by simp
qed

lemma terminate_trace:
  assumes "terminate E s = Inr s'"
  shows "\<exists>t. trace s' = trace s @ t \<and> (\<forall>os. Send_exceptions os \<notin> set t)"
proof -
  let ?r = "release_displaced_stepping s"
  from assms obtain w v where
    w: "write_register E (regnum_pc (regs E)) 0
          (to_bytes 8 (terminating_instruction_address (proc E))) ?r = Inr w"
    and v: "set_visibility E hidden_at_terminating_instruction w = Inr v"
    and run: "set_state E WAVE_STATE_RUN 0 v = Inr s'"
    by (subst (asm) terminate.simps) (auto simp add: Let_def split: sum.splits)
  have "\<exists>t0. trace ?r = trace s @ t0 \<and> (\<forall>os. Send_exceptions os \<notin> set t0)"
    by (cases "m_displaced_stepping s") (simp_all add: release_displaced_stepping_def)
  then obtain t0 where t0: "trace ?r = trace s @ t0" "\<forall>os. Send_exceptions os \<notin> set t0"
    by blast
  from write_register_frame [OF w] obtain t1 where
    t1: "trace w = trace ?r @ t1" "list_all is_register_call t1"
    by (rule reg_frame_trace)
  from set_visibility_trace [OF v] obtain t2 where
    t2: "trace v = trace w @ t2" "\<forall>os. Send_exceptions os \<notin> set t2"
    by blast
  from set_state_no_step_trace [OF run] obtain t3 where
    t3: "trace s' = trace v @ t3" "\<forall>os. Send_exceptions os \<notin> set t3"
    by auto
  have "trace s' = trace s @ (t0 @ t1 @ t2 @ t3)"
    by (simp add: t3 t2 t1 t0)
  moreover have "\<forall>os. Send_exceptions os \<notin> set (t0 @ t1 @ t2 @ t3)"
    using t0(2) register_calls_no_send_exceptions [OF t1(2)] t2(2) t3(2) by simp
  ultimately show ?thesis
    by blast
qed

lemma set_state_sends:
  assumes "set_state E state exceptions s = Inr s'"
  shows "\<exists>t. trace s' = trace s @ t
    \<and> (\<forall>os. Send_exceptions os \<in> set t \<longrightarrow> m_state s \<noteq> state \<and> exceptions \<noteq> 0)"
proof (cases "m_state s = state")
  case True
  with assms have "s' = s"
    by (subst (asm) set_state.simps) (simp add: Let_def split: if_splits)
  then show ?thesis
    by simp
next
  case False
  let ?s1 = "s\<lparr>m_stop_requested := (state = WAVE_STATE_STOP)\<rparr>"
  from set_state_change [OF assms False] obtain instruction where
    br: "if state = WAVE_STATE_SINGLE_STEP \<and> exceptions = 0
            \<and> is_terminating_step E ?s1 instruction
         then \<exists>s2. terminate E ?s1 = Inr s2
                \<and> s' = raise_event EVENT_KIND_WAVE_COMMAND_TERMINATED s2
         else set_state_commit E state exceptions (m_state s) instruction ?s1 = Inr s'"
    by blast
  show ?thesis
  proof (cases "state = WAVE_STATE_SINGLE_STEP \<and> exceptions = 0
            \<and> is_terminating_step E ?s1 instruction")
    case True
    with br obtain s2 where t: "terminate E ?s1 = Inr s2"
      and s': "s' = raise_event EVENT_KIND_WAVE_COMMAND_TERMINATED s2"
      by auto
    from terminate_trace [OF t] obtain t1 where
      "trace s2 = trace s @ t1" "\<forall>os. Send_exceptions os \<notin> set t1"
      by auto
    then have "trace s' = trace s @ t1 \<and> (\<forall>os. Send_exceptions os \<notin> set t1)"
      by (simp add: s' raise_event_def Let_def)
    then show ?thesis
      by blast
  next
    case nt: False
    with br have "set_state_commit E state exceptions (m_state s) instruction ?s1 = Inr s'"
      by (simp only: if_False)
    from set_state_commit_trace [OF this] obtain t1 where
      "trace s' = trace s @ t1" "exceptions = 0 \<longrightarrow> (\<forall>os. Send_exceptions os \<notin> set t1)"
      by auto
    with False show ?thesis
      by blast
  qed
qed

text \<open>
  Claim C1, as amended. \<open>set_state\<close> first asserts that exceptions are given with a
  resume only. When the new state equals the current one it then returns at once, with
  the state as it was, whatever the exceptions; a call that asks a stopped wave to stop
  and gives exceptions fails that assertion. When the new state differs, exceptions are
  given and the call returns, the exceptions were converted to the mask of the driver
  and sent to the queue with \<open>send_exceptions\<close>, once, after \<open>wave_set_state\<close> and the
  register accesses of parking. And \<open>send_exceptions\<close> is called on no other call: when
  a call returns, whatever it appended to the calls made holds a \<open>send_exceptions\<close> only
  if the new state differed from the current one and exceptions were given.
\<close>

theorem set_state_same_state_returns:
  "(m_state s = state \<longrightarrow>
      set_state E state exceptions s
        = (if exceptions = 0 \<or> state \<noteq> WAVE_STATE_STOP then Inr s
           else Inl Assertion_failed)) \<and>
   (m_state s \<noteq> state \<and> exceptions \<noteq> 0 \<and> set_state E state exceptions s = Inr s' \<longrightarrow>
      (\<exists>os pre post.
         convert_exceptions E s exceptions 0 = Inr os
         \<and> os AND os_queue_exception_mask (api E) \<noteq> 0
         \<and> trace s' = trace s @ [Wave_set_state state exceptions] @ pre
                        @ [Send_exceptions os] @ post
         \<and> list_all is_register_call pre
         \<and> (post = [] \<or> post = [Clear_exceptions (device_memory_violation (api E))]))) \<and>
   (set_state E state exceptions s = Inr s' \<longrightarrow>
      (\<exists>t. trace s' = trace s @ t
         \<and> (\<forall>os. Send_exceptions os \<in> set t \<longrightarrow> m_state s \<noteq> state \<and> exceptions \<noteq> 0)))"
proof (intro conjI impI)
  assume "m_state s = state"
  then show "set_state E state exceptions s
      = (if exceptions = 0 \<or> state \<noteq> WAVE_STATE_STOP then Inr s else Inl Assertion_failed)"
    by (subst set_state.simps) (simp add: Let_def)
next
  assume "set_state E state exceptions s = Inr s'"
  then show "\<exists>t. trace s' = trace s @ t
      \<and> (\<forall>os. Send_exceptions os \<in> set t \<longrightarrow> m_state s \<noteq> state \<and> exceptions \<noteq> 0)"
    by (rule set_state_sends)
next
  assume "m_state s \<noteq> state \<and> exceptions \<noteq> 0 \<and> set_state E state exceptions s = Inr s'"
  then have ne: "m_state s \<noteq> state" and exc: "exceptions \<noteq> 0"
    and run: "set_state E state exceptions s = Inr s'"
    by simp_all
  let ?s1 = "s\<lparr>m_stop_requested := (state = WAVE_STATE_STOP)\<rparr>"
  from set_state_change [OF run ne] exc obtain instruction where
    st: "state \<noteq> WAVE_STATE_STOP"
    and commit: "set_state_commit E state exceptions (m_state s) instruction ?s1 = Inr s'"
    by auto
  let ?s2 = "?s1\<lparr>hw := wave_set_state (arch E) ?s1 state exceptions,
          trace := trace ?s1 @ [Wave_set_state state exceptions], m_state := state\<rparr>"
  from commit obtain s3 s4 s5 s6 where
    p: "park_or_unpark E state ?s2 = Inr s3"
    and l: "leave_or_enter_stop E state (m_state s) s3 = Inr s4"
    and sim: "simulate_step E state exceptions instruction s4 = Inr s5"
    and snd: "send_exceptions_step E exceptions s5 = Inr s6"
    and s': "s' = clear_device_memory_violation E state s6"
    by (rule set_state_commitE)
  have f: "reg_frame ?s2 s3"
    using p by (rule park_or_unpark_frame)
  then obtain pre where pre: "trace s3 = trace ?s2 @ pre" "list_all is_register_call pre"
    by (rule reg_frame_trace)
  from l st obtain q where s4: "s4 = s3\<lparr>m_last_stopped_pc := q, m_stop_reason := 0\<rparr>"
    by (auto simp add: leave_or_enter_stop_def split: if_splits sum.splits)
  from sim exc have s5: "s5 = s4"
    by (simp add: simulate_step_skip)
  from send_exceptions_step_some [OF snd exc] obtain os where
    os: "convert_exceptions E s5 exceptions 0 = Inr os"
      "os AND os_queue_exception_mask (api E) \<noteq> 0"
    and s6: "s6 = s5\<lparr>trace := trace s5 @ [Send_exceptions os]\<rparr>"
    by blast
  have "agent_exceptions s5 = agent_exceptions s"
    using reg_frame_fields(14) [OF f] by (simp add: s5 s4)
  then have conv: "convert_exceptions E s exceptions 0 = Inr os"
    using os(1) convert_exceptions_agent [of s5 s] by simp
  have tr6: "trace s6 = trace s @ [Wave_set_state state exceptions] @ pre @ [Send_exceptions os]"
    by (simp add: s6 s5 s4 pre)
  from clear_device_memory_violation_trace [of E state s6]
  obtain post where "trace s' = trace s6 @ post"
    "post = [] \<or> post = [Clear_exceptions (device_memory_violation (api E))]"
    unfolding s' by auto
  with tr6 conv os(2) pre(2)
  show "\<exists>os pre post.
         convert_exceptions E s exceptions 0 = Inr os
         \<and> os AND os_queue_exception_mask (api E) \<noteq> 0
         \<and> trace s' = trace s @ [Wave_set_state state exceptions] @ pre
                        @ [Send_exceptions os] @ post
         \<and> list_all is_register_call pre
         \<and> (post = [] \<or> post = [Clear_exceptions (device_memory_violation (api E))])"
    by (intro exI [of _ os] exI [of _ pre] exI [of _ post]) simp
qed

theorem set_state_same_state_returns_witness:
  "set_state demo_env WAVE_STATE_SINGLE_STEP 1 (demo_wave WAVE_STATE_SINGLE_STEP processed)
     = Inr (demo_wave WAVE_STATE_SINGLE_STEP processed) \<and>
   set_state demo_env WAVE_STATE_STOP 1 (demo_wave WAVE_STATE_STOP processed)
     = Inl Assertion_failed \<and>
   (\<exists>s'. set_state demo_env WAVE_STATE_RUN 1 (demo_wave WAVE_STATE_STOP processed) = Inr s'
      \<and> trace s' = [Wave_set_state WAVE_STATE_RUN 1,
           Cache_write 800 (to_bytes 8 12288), Register_dirty_cache, Send_exceptions 1]) \<and>
   (\<exists>s'. set_state demo_env WAVE_STATE_STOP 0 (demo_wave WAVE_STATE_RUN processed) = Inr s'
      \<and> (\<forall>os. Send_exceptions os \<notin> set (trace s')))"
proof -
  let ?r = "demo_wave WAVE_STATE_SINGLE_STEP processed"
  let ?s = "demo_wave WAVE_STATE_STOP processed"
  let ?u = "demo_wave WAVE_STATE_RUN processed"
  have 1: "m_state ?r = WAVE_STATE_SINGLE_STEP" "m_state ?s = WAVE_STATE_STOP"
    by (simp_all add: demo_defs)
  have run: "\<exists>s'. set_state demo_env WAVE_STATE_RUN 1 ?s = Inr s'
      \<and> trace s' = [Wave_set_state WAVE_STATE_RUN 1,
           Cache_write 800 (to_bytes 8 12288), Register_dirty_cache, Send_exceptions 1]"
    by (subst set_state.simps, simp add: eval_defs demo_defs)
      (subst convert_exceptions.simps, subst convert_exceptions.simps,
        simp add: eval_defs demo_defs)
  then obtain s' where 2: "set_state demo_env WAVE_STATE_RUN 1 ?s = Inr s'"
    and 3: "trace s' = [Wave_set_state WAVE_STATE_RUN 1,
           Cache_write 800 (to_bytes 8 12288), Register_dirty_cache, Send_exceptions 1]"
    by blast
  have 4: "m_state ?s \<noteq> WAVE_STATE_RUN" "(1 :: 32 word) \<noteq> 0"
    by (simp_all add: demo_defs)
  from set_state_same_state_returns [of ?r WAVE_STATE_SINGLE_STEP demo_env 1] 1(1)
  have a: "set_state demo_env WAVE_STATE_SINGLE_STEP 1 ?r = Inr ?r"
    by simp
  from set_state_same_state_returns [of ?s WAVE_STATE_STOP demo_env 1] 1(2)
  have b: "set_state demo_env WAVE_STATE_STOP 1 ?s = Inl Assertion_failed"
    by simp
  from set_state_same_state_returns [of ?s WAVE_STATE_RUN demo_env 1 s'] 2 4
  have "\<exists>os pre post. trace s' = trace ?s @ [Wave_set_state WAVE_STATE_RUN 1] @ pre
                        @ [Send_exceptions os] @ post"
    by blast
  with 2 3 have c: "\<exists>s'. set_state demo_env WAVE_STATE_RUN 1 ?s = Inr s'
      \<and> trace s' = [Wave_set_state WAVE_STATE_RUN 1,
           Cache_write 800 (to_bytes 8 12288), Register_dirty_cache, Send_exceptions 1]"
    by blast
  have "\<exists>u'. set_state demo_env WAVE_STATE_STOP 0 ?u = Inr u'"
    by (simp add: set_state.simps eval_defs demo_defs)
  then obtain u' where 5: "set_state demo_env WAVE_STATE_STOP 0 ?u = Inr u'"
    by blast
  have 6: "trace ?u = []"
    by (simp add: demo_defs)
  from set_state_same_state_returns [of ?u WAVE_STATE_STOP demo_env 0 u'] 5
  obtain t where "trace u' = trace ?u @ t"
    and "\<forall>os. Send_exceptions os \<in> set t \<longrightarrow> (0 :: 32 word) \<noteq> 0"
    by blast
  then have "\<forall>os. Send_exceptions os \<notin> set (trace u')"
    by (simp add: 6)
  with 5 have d: "\<exists>s'. set_state demo_env WAVE_STATE_STOP 0 ?u = Inr s'
      \<and> (\<forall>os. Send_exceptions os \<notin> set (trace s'))"
    by blast
  show ?thesis
    by (intro conjI a b c d)
qed

text \<open>
  Claim C1 as stated fails: with the new state equal to the current state RUN and the
  valid, non-empty exception set WAVE\_ABORT, \<open>set_state\<close> returns the state unchanged;
  nothing is sent.
\<close>

theorem set_state_same_state_counterexample:
  "m_state (demo_wave WAVE_STATE_RUN processed) = WAVE_STATE_RUN \<and>
   EXCEPTION_WAVE_ABORT (api demo_env) \<noteq> 0 \<and>
   EXCEPTION_WAVE_ABORT (api demo_env) AND NOT (valid_exceptions_mask demo_env) = 0 \<and>
   set_state demo_env WAVE_STATE_RUN (EXCEPTION_WAVE_ABORT (api demo_env))
       (demo_wave WAVE_STATE_RUN processed)
     = Inr (demo_wave WAVE_STATE_RUN processed) \<and>
   trace (demo_wave WAVE_STATE_RUN processed) = []"
  by (subst set_state.simps) (simp add: valid_exceptions_mask_def demo_defs)

lemma write_register_parked:
  "write_register E regnum offset val s = Inr s' \<Longrightarrow> m_is_parked s' = m_is_parked s"
  by (auto simp add: write_register_def Let_def split: if_splits sum.splits option.splits)

lemma pc_is_plain_frame:
  "reg_frame s s' \<Longrightarrow> pc_is_plain E s' = pc_is_plain E s"
  by (simp add: pc_is_plain_def reg_frame_fields)

lemma write_register_pc_returns:
  assumes "pc_is_plain E s" and "registers_in_cache E" and "length bs = 8"
  shows "\<exists>s'. write_register E (regnum_pc (regs E)) 0 bs s = Inr s'"
proof -
  from assms(1) obtain a where
    a: "register_address (m_cwsr_record s) (regnum_pc (regs E)) = Some a"
    by (auto simp add: pc_is_plain_def)
  from assms(2) have c: "cache_contains (proc E) (hw s) a 8"
    and "cache_write (proc E) (hw s) a bs \<noteq> None"
    unfolding registers_in_cache_def by blast+
  then obtain h where h: "cache_write (proc E) (hw s) a bs = Some h"
    by auto
  show ?thesis
    using assms(1,3) a h c
    by (simp add: write_register_def pc_is_plain_def Let_def)
qed

lemma pc_returns:
  assumes "pc_is_plain E s" and "registers_in_cache E"
  shows "\<exists>p. pc E s = Inr p"
proof -
  from assms(1) obtain a where
    a: "register_address (m_cwsr_record s) (regnum_pc (regs E)) = Some a"
    by (auto simp add: pc_is_plain_def)
  from assms(2) have c: "cache_contains (proc E) (hw s) a 8"
    and "cache_read (proc E) (hw s) a 8 \<noteq> None"
    unfolding registers_in_cache_def by blast+
  then obtain bs where h: "cache_read (proc E) (hw s) a 8 = Some bs"
    by auto
  show ?thesis
    using assms(1) a h c
    by (simp add: pc_def read_register_def pc_is_plain_def Let_def)
qed

lemma unpark_returns:
  assumes "pc_is_plain E s" and "registers_in_cache E" and "m_is_parked s"
    and "m_state s \<noteq> WAVE_STATE_STOP"
  shows "\<exists>s'. unpark E s = Inr s' \<and> \<not> m_is_parked s'"
proof -
  from pc_returns [OF assms(1,2)] obtain p where p: "pc E s = Inr p"
    by blast
  have "pc_is_plain E (s\<lparr>m_is_parked := False\<rparr>)"
    using assms(1) by (simp add: pc_is_plain_def)
  from write_register_pc_returns [OF this assms(2), of "to_bytes 8 p"] obtain s' where
    w: "write_register E (regnum_pc (regs E)) 0 (to_bytes 8 p) (s\<lparr>m_is_parked := False\<rparr>)
      = Inr s'"
    by auto
  from write_register_parked [OF w] have "\<not> m_is_parked s'"
    by simp
  moreover have "unpark E s = Inr s'"
    using assms(3,4) p w by (simp add: unpark_def)
  ultimately show ?thesis
    by blast
qed

lemma terminate_returns:
  assumes "m_state s = WAVE_STATE_STOP" and "pc_is_plain E s" and "registers_in_cache E"
    and "m_visibility s \<noteq> hidden_halted_at_launch"
    and "m_is_parked s = park_stopped_waves (arch E)"
  shows "\<exists>s'. terminate E s = Inr s'"
proof -
  let ?r = "release_displaced_stepping s"
  let ?tb = "to_bytes 8 (terminating_instruction_address (proc E))"
  have r: "m_state ?r = WAVE_STATE_STOP" "m_displaced_stepping ?r = None"
    "m_visibility ?r = m_visibility s" "m_is_parked ?r = m_is_parked s"
    "m_cwsr_record ?r = m_cwsr_record s"
    using assms(1) by (simp_all add: release_displaced_stepping_def split: option.splits)
  have plain_r: "pc_is_plain E ?r"
    using assms(2) by (simp add: pc_is_plain_def r)
  from write_register_pc_returns [OF plain_r assms(3), of ?tb] obtain w where
    w: "write_register E (regnum_pc (regs E)) 0 ?tb ?r = Inr w"
    by auto
  note fw = write_register_frame [OF w]
  have wf: "m_state w = WAVE_STATE_STOP" "m_displaced_stepping w = None"
    "m_visibility w = m_visibility s" "m_is_parked w = m_is_parked s" "pc_is_plain E w"
    using reg_frame_fields [OF fw] write_register_parked [OF w] pc_is_plain_frame [OF fw]
      plain_r by (simp_all add: r)
  define v where "v = w\<lparr>m_visibility := hidden_at_terminating_instruction,
      waves_changed := (if m_visibility w = hidden_at_terminating_instruction
                        then waves_changed w else True)\<rparr>"
  have v: "set_visibility E hidden_at_terminating_instruction w = Inr v"
    using assms(4) wf(3) by (auto simp add: set_visibility_def v_def)
  have vf: "m_state v = WAVE_STATE_STOP" "m_displaced_stepping v = None"
    "m_is_parked v = m_is_parked s" "pc_is_plain E v"
    using wf by (simp_all add: v_def pc_is_plain_def)
  let ?v1 = "v\<lparr>m_stop_requested := False\<rparr>"
  let ?c2 = "?v1\<lparr>hw := wave_set_state (arch E) ?v1 WAVE_STATE_RUN 0,
          trace := trace ?v1 @ [Wave_set_state WAVE_STATE_RUN 0], m_state := WAVE_STATE_RUN\<rparr>"
  have c2: "m_state ?c2 = WAVE_STATE_RUN" "m_is_parked ?c2 = m_is_parked s" "pc_is_plain E ?c2"
    using vf by (simp_all add: pc_is_plain_def)
  have "\<exists>c3. park_or_unpark E WAVE_STATE_RUN ?c2 = Inr c3 \<and> \<not> m_is_parked c3"
  proof (cases "park_stopped_waves (arch E)")
    case True
    with assms(5) c2(2) have "m_is_parked ?c2"
      by simp
    from unpark_returns [OF c2(3) assms(3) this] c2(1) True show ?thesis
      by (simp add: park_or_unpark_def)
  next
    case False
    with assms(5) c2(2) show ?thesis
      by (simp add: park_or_unpark_def)
  qed
  then obtain c3 where p: "park_or_unpark E WAVE_STATE_RUN ?c2 = Inr c3"
    and np: "\<not> m_is_parked c3"
    by blast
  have "pc_is_plain E c3"
    using pc_is_plain_frame [OF park_or_unpark_frame [OF p]] c2(3) by simp
  from pc_returns [OF this assms(3)] obtain q where q: "pc E c3 = Inr q"
    by blast
  let ?c4 = "c3\<lparr>m_last_stopped_pc := q, m_stop_reason := 0\<rparr>"
  have l: "leave_or_enter_stop E WAVE_STATE_RUN WAVE_STATE_STOP c3 = Inr ?c4"
    using q by (simp add: leave_or_enter_stop_def)
  have commit: "set_state_commit E WAVE_STATE_RUN 0 WAVE_STATE_STOP None ?v1
      = Inr (clear_device_memory_violation E WAVE_STATE_RUN ?c4)"
    using p l
    by (simp add: set_state_commit_def Let_def simulate_step_skip send_exceptions_step_none)
  have "set_state E WAVE_STATE_RUN 0 v
      = Inr (clear_device_memory_violation E WAVE_STATE_RUN ?c4)"
    using vf(1,2) commit by (subst set_state.simps) (simp add: Let_def)
  with w v show ?thesis
    by (subst terminate.simps) (simp add: Let_def)
qed

text \<open>
  Claim C5. \<open>set_state (SINGLE_STEP, NONE)\<close> on a stopped wave whose next instruction
  is a terminating one (the original instruction of an outstanding displaced stepping,
  else the instruction read at the pc): when the call returns, the wave is terminated.
  Its state is RUN, its visibility \<open>hidden_at_terminating_instruction\<close>, the displaced
  stepping is released, a pending WAVE\_COMMAND\_TERMINATED event is the newest event
  and the last stop event of the wave. The calls made are the release, register
  accesses, one \<open>wave_set_state (RUN, NONE)\<close>, register accesses and possibly the
  clearing of the agent's memory violation: \<open>wave_set_state\<close> is never called for
  SINGLE\_STEP. When the pc is a plain register (and a parked wave belongs to an
  architecture that parks), the register accesses include the write of
  \<open>terminating_instruction_address\<close> to the pc of the context save area. And the call
  does return, for a wave with or without a displaced stepping, when the pc is a plain
  register, the register accesses are served by the cache, the wave is not hidden at
  launch and it is parked exactly when the architecture parks stopped waves.
\<close>

theorem set_state_single_step_terminating:
  assumes "m_state s = WAVE_STATE_STOP"
    and "case m_displaced_stepping s of
           Some ds \<Rightarrow> is_terminating_instruction (arch E) (ds_original_instruction ds)
         | None \<Rightarrow>
             (\<exists>i. instruction_at_pc E (s\<lparr>m_stop_requested := False\<rparr>) 0 = Inr (Some i)
                \<and> is_terminating_instruction (arch E) i)"
  shows "(\<forall>s'. set_state E WAVE_STATE_SINGLE_STEP 0 s = Inr s' \<longrightarrow>
      m_state s' = WAVE_STATE_RUN
    \<and> m_visibility s' = hidden_at_terminating_instruction
    \<and> m_displaced_stepping s' = None
    \<and> events s' = events s
        @ [\<lparr>event_id = next_event_id s, event_kind = EVENT_KIND_WAVE_COMMAND_TERMINATED,
            event_wave_id = m_id s, event_state = pending\<rparr>]
    \<and> m_last_stop_event_id s' = next_event_id s
    \<and> (\<exists>t1 t2 clr.
          list_all is_register_call t1 \<and> list_all is_register_call t2
          \<and> (clr = [] \<or> clr = [Clear_exceptions (device_memory_violation (api E))])
          \<and> trace s' = trace s
               @ (case m_displaced_stepping s of None \<Rightarrow> []
                  | Some ds \<Rightarrow> [Release_displaced_stepping (ds_id ds)])
               @ t1 @ [Wave_set_state WAVE_STATE_RUN 0] @ t2 @ clr
          \<and> (pc_is_plain E s \<and> (m_is_parked s \<longrightarrow> park_stopped_waves (arch E)) \<longrightarrow>
               (\<exists>a. register_address (m_cwsr_record s) (regnum_pc (regs E)) = Some a
                  \<and> (Cache_write a (to_bytes 8 (terminating_instruction_address (proc E)))
                        \<in> set (t1 @ t2)
                      \<or> Write_global_memory a
                          (to_bytes 8 (terminating_instruction_address (proc E)))
                        \<in> set (t1 @ t2)))))
    \<and> (\<forall>e. Wave_set_state WAVE_STATE_SINGLE_STEP e
             \<notin> set (drop (length (trace s)) (trace s'))))
    \<and> (pc_is_plain E s \<and> registers_in_cache E
          \<and> m_visibility s \<noteq> hidden_halted_at_launch
          \<and> m_is_parked s = park_stopped_waves (arch E) \<longrightarrow>
        (\<exists>s'. set_state E WAVE_STATE_SINGLE_STEP 0 s = Inr s'))"
proof (intro conjI allI impI)
  let ?s1 = "s\<lparr>m_stop_requested := False\<rparr>"
  assume "pc_is_plain E s \<and> registers_in_cache E
      \<and> m_visibility s \<noteq> hidden_halted_at_launch
      \<and> m_is_parked s = park_stopped_waves (arch E)"
  then have plain: "pc_is_plain E ?s1" and cache: "registers_in_cache E"
    and vis: "m_visibility ?s1 \<noteq> hidden_halted_at_launch"
    and parked: "m_is_parked ?s1 = park_stopped_waves (arch E)"
    by (simp_all add: pc_is_plain_def)
  have st: "m_state ?s1 = WAVE_STATE_STOP"
    using assms(1) by simp
  from terminate_returns [OF st plain cache vis parked] obtain s2 where
    t: "terminate E ?s1 = Inr s2"
    by blast
  from pc_returns [OF plain cache] have "\<exists>instruction. instruction_at_pc E ?s1 0 = Inr instruction"
    by (auto simp add: instruction_at_pc_def split: prod.splits)
  then obtain instruction where i: "instruction_at_pc E ?s1 0 = Inr instruction"
    by blast
  have "is_terminating_step E ?s1 instruction"
    using assms(2) i by (auto simp add: is_terminating_step_def split: option.splits)
  with assms(1) i t
  have "set_state E WAVE_STATE_SINGLE_STEP 0 s
      = Inr (raise_event EVENT_KIND_WAVE_COMMAND_TERMINATED s2)"
    by (subst set_state.simps) (simp add: Let_def)
  then show "\<exists>s'. set_state E WAVE_STATE_SINGLE_STEP 0 s = Inr s'"
    by blast
next
  fix s'
  assume run: "set_state E WAVE_STATE_SINGLE_STEP 0 s = Inr s'"
  let ?s1 = "s\<lparr>m_stop_requested := False\<rparr>"
  have ne: "m_state s \<noteq> WAVE_STATE_SINGLE_STEP"
    using assms(1) by simp
  from set_state_change [OF run ne] obtain instruction where
    i: "instruction_at_pc E ?s1 0 = Inr instruction"
    and br: "is_terminating_step E ?s1 instruction \<longrightarrow>
       (\<exists>s2. terminate E ?s1 = Inr s2
              \<and> s' = raise_event EVENT_KIND_WAVE_COMMAND_TERMINATED s2)"
    by (auto split: if_splits)
  have "is_terminating_step E ?s1 instruction"
    using assms(2) i by (auto simp add: is_terminating_step_def split: option.splits)
  with br obtain s2 where
    t: "terminate E ?s1 = Inr s2"
    and s': "s' = raise_event EVENT_KIND_WAVE_COMMAND_TERMINATED s2"
    by auto
  have st: "m_state ?s1 = WAVE_STATE_STOP"
    using assms(1) by simp
  have plain: "pc_is_plain E ?s1 = pc_is_plain E s"
    by (simp add: pc_is_plain_def)
  from terminate_stopped [OF t st] obtain t1 t2 clr where
    f: "m_state s2 = WAVE_STATE_RUN" "m_visibility s2 = hidden_at_terminating_instruction"
      "m_displaced_stepping s2 = None" "events s2 = events s"
      "next_event_id s2 = next_event_id s" "m_id s2 = m_id s"
    and tt: "list_all is_register_call t1" "list_all is_register_call t2"
      "clr = [] \<or> clr = [Clear_exceptions (device_memory_violation (api E))]"
    and tr: "trace s2 = trace s
               @ (case m_displaced_stepping s of None \<Rightarrow> []
                  | Some ds \<Rightarrow> [Release_displaced_stepping (ds_id ds)])
               @ t1 @ [Wave_set_state WAVE_STATE_RUN 0] @ t2 @ clr"
    and pcw: "pc_is_plain E s \<and> (m_is_parked s \<longrightarrow> park_stopped_waves (arch E)) \<longrightarrow>
               (\<exists>a. register_address (m_cwsr_record s) (regnum_pc (regs E)) = Some a
                  \<and> (Cache_write a (to_bytes 8 (terminating_instruction_address (proc E)))
                        \<in> set (t1 @ t2)
                      \<or> Write_global_memory a
                          (to_bytes 8 (terminating_instruction_address (proc E)))
                        \<in> set (t1 @ t2)))"
    unfolding plain by auto
  have tr': "trace s' = trace s2"
    by (simp add: s' raise_event_def Let_def)
  show "m_state s' = WAVE_STATE_RUN"
    "m_visibility s' = hidden_at_terminating_instruction"
    "m_displaced_stepping s' = None"
    "events s' = events s
        @ [\<lparr>event_id = next_event_id s, event_kind = EVENT_KIND_WAVE_COMMAND_TERMINATED,
            event_wave_id = m_id s, event_state = pending\<rparr>]"
    "m_last_stop_event_id s' = next_event_id s"
    using f by (simp_all add: s' raise_event_def Let_def)
  show "\<exists>t1 t2 clr.
          list_all is_register_call t1 \<and> list_all is_register_call t2
          \<and> (clr = [] \<or> clr = [Clear_exceptions (device_memory_violation (api E))])
          \<and> trace s' = trace s
               @ (case m_displaced_stepping s of None \<Rightarrow> []
                  | Some ds \<Rightarrow> [Release_displaced_stepping (ds_id ds)])
               @ t1 @ [Wave_set_state WAVE_STATE_RUN 0] @ t2 @ clr
          \<and> (pc_is_plain E s \<and> (m_is_parked s \<longrightarrow> park_stopped_waves (arch E)) \<longrightarrow>
               (\<exists>a. register_address (m_cwsr_record s) (regnum_pc (regs E)) = Some a
                  \<and> (Cache_write a (to_bytes 8 (terminating_instruction_address (proc E)))
                        \<in> set (t1 @ t2)
                      \<or> Write_global_memory a
                          (to_bytes 8 (terminating_instruction_address (proc E)))
                        \<in> set (t1 @ t2))))"
    using tt tr pcw unfolding tr' [symmetric]
    by (intro conjI exI [of _ t1] exI [of _ t2] exI [of _ clr]) simp_all
  show "Wave_set_state WAVE_STATE_SINGLE_STEP e \<notin> set (drop (length (trace s)) (trace s'))"
    for e
    using register_calls_no_wave_set_state [OF tt(1)]
      register_calls_no_wave_set_state [OF tt(2)] tt(3)
    by (auto simp add: tr' tr split: option.splits)
qed

theorem set_state_single_step_terminating_witness:
  "(\<exists>s'. set_state demo_env WAVE_STATE_SINGLE_STEP 0 (demo_wave WAVE_STATE_STOP processed) = Inr s'
      \<and> m_state s' = WAVE_STATE_RUN
      \<and> m_visibility s' = hidden_at_terminating_instruction
      \<and> events s' = [demo_event processed,
           \<lparr>event_id = 8, event_kind = EVENT_KIND_WAVE_COMMAND_TERMINATED,
            event_wave_id = 1, event_state = pending\<rparr>]
      \<and> trace s' = [Wave_set_state WAVE_STATE_RUN 0, Cache_write 800 (to_bytes 8 8192),
           Register_dirty_cache])
   \<and> (\<exists>s'. set_state demo_env WAVE_STATE_SINGLE_STEP 0 demo_displaced = Inr s'
      \<and> m_state s' = WAVE_STATE_RUN
      \<and> m_visibility s' = hidden_at_terminating_instruction
      \<and> m_displaced_stepping s' = None
      \<and> events s' = [demo_event reported,
           \<lparr>event_id = 8, event_kind = EVENT_KIND_WAVE_COMMAND_TERMINATED,
            event_wave_id = 1, event_state = pending\<rparr>]
      \<and> trace s' = [Release_displaced_stepping 3, Wave_set_state WAVE_STATE_RUN 0,
           Cache_write 800 (to_bytes 8 8192), Register_dirty_cache])"
proof -
  let ?s = "demo_wave WAVE_STATE_STOP processed"
  let ?d = "demo_displaced"
  have cache: "registers_in_cache demo_env"
    by (simp add: registers_in_cache_def demo_defs)
  have st: "m_state ?s = WAVE_STATE_STOP"
    by (simp add: demo_defs)
  have tm: "case m_displaced_stepping ?s of
           Some ds \<Rightarrow> is_terminating_instruction (arch demo_env) (ds_original_instruction ds)
         | None \<Rightarrow>
             (\<exists>i. instruction_at_pc demo_env (?s\<lparr>m_stop_requested := False\<rparr>) 0 = Inr (Some i)
                \<and> is_terminating_instruction (arch demo_env) i)"
    by (simp add: eval_defs demo_defs)
  have ok: "pc_is_plain demo_env ?s \<and> registers_in_cache demo_env
      \<and> m_visibility ?s \<noteq> hidden_halted_at_launch
      \<and> m_is_parked ?s = park_stopped_waves (arch demo_env)"
    using cache by (simp add: pc_is_plain_def in_range_def demo_defs)
  note res = set_state_single_step_terminating [OF st tm]
  from res [THEN conjunct2] ok obtain s' where
    run: "set_state demo_env WAVE_STATE_SINGLE_STEP 0 ?s = Inr s'"
    by blast
  have tr: "trace s' = [Wave_set_state WAVE_STATE_RUN 0, Cache_write 800 (to_bytes 8 8192),
      Register_dirty_cache]"
    using run by (auto simp add: set_state.simps terminate.simps eval_defs demo_defs)
  have facts: "events ?s = [demo_event processed]" "next_event_id ?s = 8" "m_id ?s = 1"
    by (simp_all add: demo_defs)
  from res [THEN conjunct1, THEN spec, THEN mp, OF run]
  have "m_state s' = WAVE_STATE_RUN \<and> m_visibility s' = hidden_at_terminating_instruction
      \<and> events s' = [demo_event processed,
           \<lparr>event_id = 8, event_kind = EVENT_KIND_WAVE_COMMAND_TERMINATED,
            event_wave_id = 1, event_state = pending\<rparr>]"
    by (simp add: facts)
  with run tr have a: "\<exists>s'. set_state demo_env WAVE_STATE_SINGLE_STEP 0 ?s = Inr s'
      \<and> m_state s' = WAVE_STATE_RUN
      \<and> m_visibility s' = hidden_at_terminating_instruction
      \<and> events s' = [demo_event processed,
           \<lparr>event_id = 8, event_kind = EVENT_KIND_WAVE_COMMAND_TERMINATED,
            event_wave_id = 1, event_state = pending\<rparr>]
      \<and> trace s' = [Wave_set_state WAVE_STATE_RUN 0, Cache_write 800 (to_bytes 8 8192),
           Register_dirty_cache]"
    by (intro exI [of _ s'] conjI) simp_all
  have st_d: "m_state ?d = WAVE_STATE_STOP"
    by (simp add: demo_displaced_def demo_defs)
  have tm_d: "case m_displaced_stepping ?d of
           Some ds \<Rightarrow> is_terminating_instruction (arch demo_env) (ds_original_instruction ds)
         | None \<Rightarrow>
             (\<exists>i. instruction_at_pc demo_env (?d\<lparr>m_stop_requested := False\<rparr>) 0 = Inr (Some i)
                \<and> is_terminating_instruction (arch demo_env) i)"
    by (simp add: demo_displaced_def demo_defs)
  have ok_d: "pc_is_plain demo_env ?d \<and> registers_in_cache demo_env
      \<and> m_visibility ?d \<noteq> hidden_halted_at_launch
      \<and> m_is_parked ?d = park_stopped_waves (arch demo_env)"
    using cache by (simp add: pc_is_plain_def in_range_def demo_displaced_def demo_defs)
  note res_d = set_state_single_step_terminating [OF st_d tm_d]
  from res_d [THEN conjunct2] ok_d obtain d' where
    run_d: "set_state demo_env WAVE_STATE_SINGLE_STEP 0 ?d = Inr d'"
    by blast
  have tr_d: "trace d' = [Release_displaced_stepping 3, Wave_set_state WAVE_STATE_RUN 0,
      Cache_write 800 (to_bytes 8 8192), Register_dirty_cache]"
    using run_d
    by (auto simp add: set_state.simps terminate.simps eval_defs demo_displaced_def demo_defs)
  have facts_d: "events ?d = [demo_event reported]" "next_event_id ?d = 8" "m_id ?d = 1"
    by (simp_all add: demo_displaced_def demo_defs)
  from res_d [THEN conjunct1, THEN spec, THEN mp, OF run_d]
  have "m_state d' = WAVE_STATE_RUN \<and> m_visibility d' = hidden_at_terminating_instruction
      \<and> m_displaced_stepping d' = None
      \<and> events d' = [demo_event reported,
           \<lparr>event_id = 8, event_kind = EVENT_KIND_WAVE_COMMAND_TERMINATED,
            event_wave_id = 1, event_state = pending\<rparr>]"
    by (simp add: facts_d)
  with run_d tr_d have b: "\<exists>s'. set_state demo_env WAVE_STATE_SINGLE_STEP 0 ?d = Inr s'
      \<and> m_state s' = WAVE_STATE_RUN
      \<and> m_visibility s' = hidden_at_terminating_instruction
      \<and> m_displaced_stepping s' = None
      \<and> events s' = [demo_event reported,
           \<lparr>event_id = 8, event_kind = EVENT_KIND_WAVE_COMMAND_TERMINATED,
            event_wave_id = 1, event_state = pending\<rparr>]
      \<and> trace s' = [Release_displaced_stepping 3, Wave_set_state WAVE_STATE_RUN 0,
           Cache_write 800 (to_bytes 8 8192), Register_dirty_cache]"
    by (intro exI [of _ d'] conjI) simp_all
  show ?thesis
    by (intro conjI a b)
qed

section \<open>Swizzled transfers\<close>




















section \<open>The watchpoints query\<close>

text \<open>
  Claim C10, as amended. When the copy to the client never reports CLIENT\_CALLBACK
  itself, \<open>get_info\<close> for WATCHPOINTS returns CLIENT\_CALLBACK exactly when the count
  of triggered watchpoints is not zero and the allocator of the client returned null.
  With no triggered watchpoint a null buffer is no error: the empty list is copied to
  the client and the status is that of the copy, whatever the allocator returned. When
  the call returns another error status, which is then the status of the failed copy,
  the buffer was deallocated after its allocation; on success and on CLIENT\_CALLBACK
  nothing is deallocated.
\<close>

theorem get_info_watchpoints_status:
  assumes "\<forall>v. utils_get_info (proc E) value_size v \<noteq> ERROR_CLIENT_CALLBACK"
  shows "((\<exists>out s'. get_info E WAVE_INFO_WATCHPOINTS value_size s
              = Inr (ERROR_CLIENT_CALLBACK, out, s'))
          \<longleftrightarrow> (of_nat (length (triggered_watchpoints (arch E) s)) :: size_t) \<noteq> 0
              \<and> allocate_memory (proc E) (hw s)
                   (of_nat (length (triggered_watchpoints (arch E) s))
                    * sizeof_watchpoint_id (api E)) = None)
    \<and> (triggered_watchpoints (arch E) s = [] \<longrightarrow>
         (\<exists>out s'. get_info E WAVE_INFO_WATCHPOINTS value_size s
             = Inr (utils_get_info (proc E) value_size
                      (Info_watchpoint_list []
                         (allocate_memory (proc E) (hw s) 0)), out, s')))
    \<and> (\<forall>status out s'.
          get_info E WAVE_INFO_WATCHPOINTS value_size s = Inr (status, out, s') \<longrightarrow>
          (if status = STATUS_SUCCESS
           then trace s' = trace s
                  @ [Allocate_memory (of_nat (length (triggered_watchpoints (arch E) s))
                                      * sizeof_watchpoint_id (api E))]
           else if status = ERROR_CLIENT_CALLBACK
           then trace s' = trace s
                  @ [Allocate_memory (of_nat (length (triggered_watchpoints (arch E) s))
                                      * sizeof_watchpoint_id (api E))]
           else trace s' = trace s
                  @ [Allocate_memory (of_nat (length (triggered_watchpoints (arch E) s))
                                      * sizeof_watchpoint_id (api E)),
                     Deallocate_memory
                       (allocate_memory (proc E) (hw s)
                          (of_nat (length (triggered_watchpoints (arch E) s))
                           * sizeof_watchpoint_id (api E)))]))"
proof -
  let ?ids = "triggered_watchpoints (arch E) s"
  let ?n = "(of_nat (length ?ids) :: size_t) * sizeof_watchpoint_id (api E)"
  let ?ptr = "allocate_memory (proc E) (hw s) ?n"
  let ?s1 = "s\<lparr>trace := trace s @ [Allocate_memory ?n]\<rparr>"
  have g: "get_info E WAVE_INFO_WATCHPOINTS value_size s = get_info_watchpoints E value_size s"
    by (simp add: get_info_def)
  show ?thesis
  proof (cases "(of_nat (length ?ids) :: size_t) \<noteq> 0 \<and> ?ptr = None")
    case True
    then have "get_info_watchpoints E value_size s = Inr (ERROR_CLIENT_CALLBACK, None, ?s1)"
      by (simp add: get_info_watchpoints_def Let_def)
    with True show ?thesis
      unfolding g by auto
  next
    case False
    show ?thesis
    proof (cases "those (map (find_watchpoint (proc E)) ?ids)")
      case None
      with False have "get_info_watchpoints E value_size s = Inl Fatal_error"
        by (auto simp add: get_info_watchpoints_def Let_def)
      with False None show ?thesis
        unfolding g by auto
    next
      case (Some wids)
      let ?list = "Info_watchpoint_list wids ?ptr"
      let ?st = "utils_get_info (proc E) value_size ?list"
      from False Some have r: "get_info_watchpoints E value_size s =
        (if ?st \<noteq> STATUS_SUCCESS
         then Inr (?st, None, ?s1\<lparr>trace := trace ?s1 @ [Deallocate_memory ?ptr]\<rparr>)
         else Inr (?st, Some ?list, ?s1))"
        by (auto simp add: get_info_watchpoints_def Let_def)
      have ncb: "?st \<noteq> ERROR_CLIENT_CALLBACK"
        using assms by blast
      have e: "?ids = [] \<Longrightarrow> wids = []"
        using Some by simp
      show ?thesis
        unfolding g r using False ncb e by auto
    qed
  qed
qed

theorem get_info_watchpoints_status_witness:
  "(\<exists>out s'. get_info demo_env WAVE_INFO_WATCHPOINTS 16 (demo_wave WAVE_STATE_STOP processed)
       = Inr (ERROR_CLIENT_CALLBACK, out, s'))
   \<and> (\<exists>out s'. get_info demo_env_no_watchpoints WAVE_INFO_WATCHPOINTS 16
         (demo_wave WAVE_STATE_STOP processed)
       = Inr (STATUS_SUCCESS, out, s'))
   \<and> (\<exists>out s'. get_info demo_env_no_watchpoints WAVE_INFO_WATCHPOINTS 4
         (demo_wave WAVE_STATE_STOP processed)
       = Inr (ERROR_INVALID_ARGUMENT_COMPATIBILITY, out, s')
       \<and> trace s' = [Allocate_memory 0, Deallocate_memory None])"
proof -
  let ?s = "demo_wave WAVE_STATE_STOP processed"
  let ?E = "demo_env_no_watchpoints"
  have h1: "\<forall>v. utils_get_info (proc demo_env) 16 v \<noteq> ERROR_CLIENT_CALLBACK"
    by (simp add: demo_defs)
  have h2: "\<forall>v. utils_get_info (proc ?E) 16 v \<noteq> ERROR_CLIENT_CALLBACK"
    by (simp add: demo_env_no_watchpoints_def demo_defs)
  have h3: "\<forall>v. utils_get_info (proc ?E) 4 v \<noteq> ERROR_CLIENT_CALLBACK"
    by (simp add: demo_env_no_watchpoints_def demo_defs)
  have w: "(of_nat (length (triggered_watchpoints (arch demo_env) ?s)) :: size_t) \<noteq> 0
      \<and> allocate_memory (proc demo_env) (hw ?s)
           (of_nat (length (triggered_watchpoints (arch demo_env) ?s))
            * sizeof_watchpoint_id (api demo_env)) = None"
    by (simp add: demo_defs)
  have a: "\<exists>out s'. get_info demo_env WAVE_INFO_WATCHPOINTS 16 ?s
       = Inr (ERROR_CLIENT_CALLBACK, out, s')"
    using get_info_watchpoints_status [OF h1, of ?s, THEN conjunct1] w by (rule iffD2)
  have e: "triggered_watchpoints (arch ?E) ?s = []"
    by (simp add: demo_env_no_watchpoints_def demo_defs)
  have u16: "utils_get_info (proc ?E) 16 v = STATUS_SUCCESS" for v
    by (simp add: demo_env_no_watchpoints_def demo_defs)
  have u4: "utils_get_info (proc ?E) 4 v = ERROR_INVALID_ARGUMENT_COMPATIBILITY" for v
    by (simp add: demo_env_no_watchpoints_def demo_defs)
  have al: "allocate_memory (proc ?E) h n = None" for h n
    by (simp add: demo_env_no_watchpoints_def demo_defs)
  have t0: "trace ?s = []"
    by (simp add: demo_defs)
  from get_info_watchpoints_status [OF h2, of ?s, THEN conjunct2, THEN conjunct1] e
  have b: "\<exists>out s'. get_info ?E WAVE_INFO_WATCHPOINTS 16 ?s = Inr (STATUS_SUCCESS, out, s')"
    by (simp only: u16 simp_thms)
  from get_info_watchpoints_status [OF h3, of ?s, THEN conjunct2, THEN conjunct1] e
  obtain out s' where
    c1: "get_info ?E WAVE_INFO_WATCHPOINTS 4 ?s
      = Inr (ERROR_INVALID_ARGUMENT_COMPATIBILITY, out, s')"
    by (auto simp only: u4 simp_thms)
  from get_info_watchpoints_status [OF h3, of ?s, THEN conjunct2, THEN conjunct2,
      THEN spec, THEN spec, THEN spec, THEN mp, OF c1]
  have "trace s' = trace ?s
      @ [Allocate_memory (of_nat (length (triggered_watchpoints (arch ?E) ?s))
                          * sizeof_watchpoint_id (api ?E)),
         Deallocate_memory
           (allocate_memory (proc ?E) (hw ?s)
              (of_nat (length (triggered_watchpoints (arch ?E) ?s))
               * sizeof_watchpoint_id (api ?E)))]"
    by simp
  then have c2: "trace s' = [Allocate_memory 0, Deallocate_memory None]"
    by (simp add: e al t0)
  from c1 c2 have c: "\<exists>out s'. get_info ?E WAVE_INFO_WATCHPOINTS 4 ?s
       = Inr (ERROR_INVALID_ARGUMENT_COMPATIBILITY, out, s')
       \<and> trace s' = [Allocate_memory 0, Deallocate_memory None]"
    by (intro exI conjI)
  show ?thesis
    by (intro conjI a b c)
qed

text \<open>
  Claim C10 as stated fails: with no triggered watchpoint and a null buffer from the
  allocator, a query whose value size does not fit does not succeed; it returns the
  status of the failed copy, INVALID\_ARGUMENT\_COMPATIBILITY, after deallocating.
\<close>

theorem get_info_watchpoints_null_counterexample:
  "triggered_watchpoints (arch demo_env_no_watchpoints) (demo_wave WAVE_STATE_STOP processed) = []
   \<and> allocate_memory (proc demo_env_no_watchpoints) (hw (demo_wave WAVE_STATE_STOP processed)) 0
       = None
   \<and> get_info demo_env_no_watchpoints WAVE_INFO_WATCHPOINTS 4
         (demo_wave WAVE_STATE_STOP processed)
       = Inr (ERROR_INVALID_ARGUMENT_COMPATIBILITY, None,
              (demo_wave WAVE_STATE_STOP processed)
                \<lparr>trace := [Allocate_memory 0, Deallocate_memory None]\<rparr>)"
  by (simp add: get_info_def get_info_watchpoints_def Let_def demo_env_no_watchpoints_def
      demo_defs)

end
